theory Spec2Isabelle
  imports Complex_Main "HOL-Library.AList" "HOL-Library.Char_ord" "HOL-Library.List_Lexorder"
begin

section \<open>JavaScript numbers\<close>

text \<open>
  The engine computes on JavaScript numbers. A number is modelled as a finite real or one
  of the three special values of IEEE-754 arithmetic. Arithmetic on finite values is exact
  (no rounding, no overflow) and the two zeros are identified (a zero divisor counts as
  \<open>+0\<close>); division by zero, \<open>NaN\<close> propagation and the comparisons follow the language.
\<close>

datatype jsnum = Fin real | PInf | NInf | NaN

fun jneg :: "jsnum \<Rightarrow> jsnum" where
  "jneg (Fin x) = Fin (- x)"
| "jneg PInf = NInf"
| "jneg NInf = PInf"
| "jneg NaN = NaN"

fun jadd :: "jsnum \<Rightarrow> jsnum \<Rightarrow> jsnum" where
  "jadd NaN b = NaN"
| "jadd a NaN = NaN"
| "jadd (Fin x) (Fin y) = Fin (x + y)"
| "jadd PInf NInf = NaN"
| "jadd NInf PInf = NaN"
| "jadd PInf b = PInf"
| "jadd a PInf = PInf"
| "jadd NInf b = NInf"
| "jadd a NInf = NInf"

definition jsub :: "jsnum \<Rightarrow> jsnum \<Rightarrow> jsnum" where
  "jsub a b = jadd a (jneg b)"

definition infTimes :: "bool \<Rightarrow> real \<Rightarrow> jsnum" where
  \<comment> \<open>an infinity (positive iff the flag) times a finite number\<close>
  "infTimes pos y =
     (if y = 0 then NaN else if (0 < y) = pos then PInf else NInf)"

fun jmul :: "jsnum \<Rightarrow> jsnum \<Rightarrow> jsnum" where
  "jmul NaN b = NaN"
| "jmul a NaN = NaN"
| "jmul (Fin x) (Fin y) = Fin (x * y)"
| "jmul (Fin x) PInf = infTimes True x"
| "jmul (Fin x) NInf = infTimes False x"
| "jmul PInf (Fin y) = infTimes True y"
| "jmul NInf (Fin y) = infTimes False y"
| "jmul PInf PInf = PInf"
| "jmul PInf NInf = NInf"
| "jmul NInf PInf = NInf"
| "jmul NInf NInf = PInf"

fun jdiv :: "jsnum \<Rightarrow> jsnum \<Rightarrow> jsnum" where
  "jdiv NaN b = NaN"
| "jdiv a NaN = NaN"
| "jdiv (Fin x) (Fin y) =
     (if y = 0 then (if x = 0 then NaN else if 0 < x then PInf else NInf)
      else Fin (x / y))"
| "jdiv (Fin x) PInf = Fin 0"
| "jdiv (Fin x) NInf = Fin 0"
| "jdiv PInf (Fin y) = (if 0 \<le> y then PInf else NInf)"
| "jdiv NInf (Fin y) = (if 0 \<le> y then NInf else PInf)"
| "jdiv PInf PInf = NaN"
| "jdiv PInf NInf = NaN"
| "jdiv NInf PInf = NaN"
| "jdiv NInf NInf = NaN"

fun jlt :: "jsnum \<Rightarrow> jsnum \<Rightarrow> bool" where
  "jlt NaN b = False"
| "jlt a NaN = False"
| "jlt (Fin x) (Fin y) = (x < y)"
| "jlt a NInf = False"
| "jlt NInf b = True"
| "jlt PInf b = False"
| "jlt a PInf = True"

definition jle :: "jsnum \<Rightarrow> jsnum \<Rightarrow> bool" where
  "jle a b = (a \<noteq> NaN \<and> b \<noteq> NaN \<and> \<not> jlt b a)"

definition jgt :: "jsnum \<Rightarrow> jsnum \<Rightarrow> bool" where
  "jgt a b = jlt b a"

definition jge :: "jsnum \<Rightarrow> jsnum \<Rightarrow> bool" where
  "jge a b = jle b a"

definition truthy :: "jsnum \<Rightarrow> bool" where
  \<comment> \<open>a number in a boolean position: false for \<open>0\<close> and \<open>NaN\<close>\<close>
  "truthy a = (a \<noteq> NaN \<and> a \<noteq> Fin 0)"

definition jor :: "jsnum \<Rightarrow> jsnum \<Rightarrow> jsnum" where
  \<comment> \<open>\<open>a || b\<close> on numbers\<close>
  "jor a b = (if truthy a then a else b)"

definition isFinite :: "jsnum \<Rightarrow> bool" where
  "isFinite a = (case a of Fin x \<Rightarrow> True | _ \<Rightarrow> False)"

definition Math_min :: "jsnum \<Rightarrow> jsnum \<Rightarrow> jsnum" where
  "Math_min a b = (if a = NaN \<or> b = NaN then NaN else if jlt b a then b else a)"

definition Math_max :: "jsnum list \<Rightarrow> jsnum" where
  \<comment> \<open>\<open>Math.max(...xs)\<close>: \<open>-Infinity\<close> on no argument, \<open>NaN\<close> if any argument is\<close>
  "Math_max xs =
     (if NaN \<in> set xs then NaN else fold (\<lambda>x m. if jlt m x then x else m) xs NInf)"

fun Math_round :: "jsnum \<Rightarrow> jsnum" where
  \<comment> \<open>nearest integer, a half rounds towards \<open>+Infinity\<close>\<close>
  "Math_round (Fin x) = Fin (of_int \<lfloor>x + 1 / 2\<rfloor>)"
| "Math_round a = a"

fun Math_floor :: "jsnum \<Rightarrow> jsnum" where
  "Math_floor (Fin x) = Fin (of_int \<lfloor>x\<rfloor>)"
| "Math_floor a = a"

fun Math_sqrt :: "jsnum \<Rightarrow> jsnum" where
  "Math_sqrt (Fin x) = (if x < 0 then NaN else Fin (sqrt x))"
| "Math_sqrt PInf = PInf"
| "Math_sqrt a = NaN"

definition isInt :: "real \<Rightarrow> bool" where
  "isInt y = (of_int \<lfloor>y\<rfloor> = y)"

fun Math_pow :: "jsnum \<Rightarrow> jsnum \<Rightarrow> jsnum" where
  "Math_pow b NaN = NaN"
| "Math_pow b (Fin y) =
     (if y = 0 then Fin 1
      else case b of
        NaN \<Rightarrow> NaN
      | PInf \<Rightarrow> (if 0 < y then PInf else Fin 0)
      | NInf \<Rightarrow> (if 0 < y then (if isInt y \<and> odd \<lfloor>y\<rfloor> then NInf else PInf) else Fin 0)
      | Fin x \<Rightarrow>
          (if x = 0 then (if 0 < y then Fin 0 else PInf)
           else if 0 < x then Fin (x powr y)
           else if isInt y then Fin ((if odd \<lfloor>y\<rfloor> then - 1 else 1) * (\<bar>x\<bar> powr y))
           else NaN))"
| "Math_pow b PInf =
     (case b of
        NaN \<Rightarrow> NaN
      | PInf \<Rightarrow> PInf
      | NInf \<Rightarrow> PInf
      | Fin x \<Rightarrow> (if 1 < \<bar>x\<bar> then PInf else if \<bar>x\<bar> = 1 then NaN else Fin 0))"
| "Math_pow b NInf =
     (case b of
        NaN \<Rightarrow> NaN
      | PInf \<Rightarrow> Fin 0
      | NInf \<Rightarrow> Fin 0
      | Fin x \<Rightarrow> (if 1 < \<bar>x\<bar> then Fin 0 else if \<bar>x\<bar> = 1 then NaN else PInf))"

section \<open>Leverage sizer\<close>

definition calculateDynamicLeverage :: "jsnum \<Rightarrow> jsnum \<Rightarrow> jsnum" where
  "calculateDynamicLeverage rr maxLeverage =
     (let minRR = Fin (5 / 2);
          maxRR = Fin 5;
          clampedRR = Math_min rr maxRR;
          rrRange = jsub maxRR minRR;
          leverageRange = jsub maxLeverage (Fin 2)
      in if jle rrRange (Fin 0) \<or> jle leverageRange (Fin 0) then Fin 2
         else let leverage = jadd (Fin 2) (jmul (jdiv (jsub clampedRR minRR) rrRange) leverageRange)
              in Math_round (Math_min leverage maxLeverage))"

section \<open>Data model\<close>

datatype AssetClass =
  USStocks | GlobalStocks | UKStocks | EUStocks | AsianStocks
  | Crypto | Commodities | Forex | Bonds | Indices

text \<open>The universes \<open>Bonds\<close>, \<open>Indices\<close>, \<open>Forex\<close> and \<open>Commodities\<close> carry a \<open>U\<close>
  to keep them apart from the asset classes of the same name.\<close>

datatype AssetUniverse =
  SP500 | EU50 | FTSE100 | Asian50 | BondsU | IndicesU | ForexU | CommoditiesU

datatype Timeframe = TF_5Min | TF_15Min | TF_1Hour | TF_1Day

datatype TradeType = WIN | LOSS

datatype ExitReason = TP | SL | EOD

text \<open>One OHLCV bar (\<open>AlpacaBar\<close>, fields \<open>t o h l c v\<close> in the source).\<close>

record AlpacaBar =
  bar_t :: string
  bar_o :: jsnum
  bar_h :: jsnum
  bar_l :: jsnum
  bar_c :: jsnum
  bar_v :: jsnum

text \<open>The fields of \<open>SavedStrategy\<close> that the backtest reads.\<close>

record SavedStrategy =
  strategyId :: string
  assetUniverses :: "AssetUniverse list"
  customSymbols :: "string list"
  stopLossPercentage :: jsnum

record Trade =
  tradeId :: string
  symbol :: string
  pnl :: jsnum
  pnlPercentage :: jsnum
  positionSize :: jsnum
  tradeValue :: jsnum
  leverage :: jsnum
  tradeHoldingTime :: string
  rr :: jsnum
  tradeType :: TradeType
  assetClass :: AssetClass
  entryPrice :: jsnum
  exitPrice :: jsnum
  stopLossPrice :: jsnum
  takeProfitPrice :: jsnum
  tradeCommission :: jsnum
  tradeSlippage :: jsnum
  exitReason :: ExitReason

record PerformanceDataPoint =
  date :: string
  strategy :: jsnum
  sp500 :: jsnum
  drawdown :: "jsnum option"

text \<open>The answer of the price-bar provider: \<open>data\<close> is an object from symbols to bars,
  kept as an association list read with \<^const>\<open>map_of\<close>.\<close>

record BackendResponse =
  success :: bool
  data :: "(string \<times> AlpacaBar list) list option"

record BacktestSummary =
  trades :: nat
  wins :: nat
  losses :: nat
  winRate :: jsnum
  avgWin :: jsnum
  avgLoss :: jsnum
  avgRR :: jsnum
  avgPositionSize :: jsnum
  avgLeverage :: jsnum

record RunConfig =
  cfgStartDate :: string
  cfgEndDate :: string
  cfgInitialCapital :: jsnum
  cfgCommission :: jsnum
  cfgSlippage :: jsnum

text \<open>The result object. The metric values and the win rate are the numbers before their
  formatting to two decimals; the two placeholder arrays, always empty, are left out.\<close>

record BacktestResults =
  metrics :: "(string \<times> jsnum) list"
  performanceData :: "PerformanceDataPoint list"
  allTrades :: "Trade list"
  stopLossFeedback :: string
  summary :: BacktestSummary
  config :: RunConfig

text \<open>What a run reads: the component state, and the answers of its collaborators (the
  price-bar provider, the advisory text, the successive values of \<open>Math.random()\<close>).\<close>

record Env =
  selectedStrategyIds :: "string list"
  savedStrategies :: "SavedStrategy list"
  startDate :: string
  endDate :: string
  initialCapital :: jsnum
  commission :: jsnum
  slippage :: jsnum
  useWeeklyBias :: bool
  timeframe :: Timeframe
  fetchStockHistoricalData :: "string list \<Rightarrow> string \<Rightarrow> string \<Rightarrow> Timeframe \<Rightarrow> BackendResponse"
  optimizationFeedback :: string
  random :: "nat \<Rightarrow> real"

text \<open>The three ways a run ends without a result: the alert of line 109
  (\<open>InputError\<close>), the message of line 133 (\<open>DataUnavailableError\<close>) and the message
  of line 256 (\<open>EmptyResultError\<close>).\<close>

datatype EngineError = InputError | DataUnavailableError | EmptyResultError

datatype Outcome = Failed EngineError | Completed BacktestResults

section \<open>Constants\<close>

fun ASSET_UNIVERSE_TICKER_MAP :: "AssetUniverse \<Rightarrow> string list" where
  "ASSET_UNIVERSE_TICKER_MAP SP500 =
     [''AAPL'', ''MSFT'', ''GOOGL'', ''AMZN'', ''NVDA'', ''TSLA'', ''JPM'', ''JNJ'', ''V'', ''UNH'',
      ''HD'', ''PG'', ''BAC'', ''MA'', ''XOM'', ''CVX'', ''PFE'', ''KO'', ''PEP'', ''DIS'']"
| "ASSET_UNIVERSE_TICKER_MAP EU50 =
     [''ASML.AS'', ''NVO'', ''LVMH.PA'', ''MC.PA'', ''OR.PA'', ''SAP.DE'', ''SIE.DE'', ''AIR.PA'',
      ''TTE'', ''IDEXY'']"
| "ASSET_UNIVERSE_TICKER_MAP FTSE100 =
     [''SHEL'', ''AZN.L'', ''HSBA.L'', ''ULVR.L'', ''DGE.L'', ''BP.L'', ''BATS.L'', ''GLEN.L'',
      ''RIO.L'', ''BARC.L'']"
| "ASSET_UNIVERSE_TICKER_MAP Asian50 =
     [''BABA'', ''TM'', ''SONY'', ''600519.SS'', ''TSM'', ''TCEHY'', ''HDB'', ''SMFG'', ''MUFG'',
      ''INFY'']"
| "ASSET_UNIVERSE_TICKER_MAP BondsU =
     [''TLT'', ''IEF'', ''SHY'', ''LQD'', ''HYG'', ''BND'', ''AGG'', ''TIP'', ''JNK'', ''VCSH'']"
| "ASSET_UNIVERSE_TICKER_MAP IndicesU =
     [''^GSPC'', ''^GDAXI'', ''^FTSE'', ''^N225'', ''^HSI'', ''EEM'']"
| "ASSET_UNIVERSE_TICKER_MAP ForexU =
     [''EURUSD=X'', ''USDJPY=X'', ''GBPUSD=X'', ''AUDUSD=X'', ''USDCAD=X'', ''USDCHF=X'',
      ''NZDUSD=X'', ''EURJPY=X'', ''GBPJPY=X'', ''EURGBP=X'', ''AUDJPY=X'', ''CADJPY=X'',
      ''CHFJPY=X'', ''EURAUD=X'', ''EURCAD=X'']"
| "ASSET_UNIVERSE_TICKER_MAP CommoditiesU =
     [''GLD'', ''SLV'', ''USO'', ''UNG'', ''CORN'', ''WEAT'', ''SOYB'', ''DBA'', ''USCI'', ''PPLT'',
      ''PALL'', ''CPER'', ''NIB'', ''JO'', ''SGG'']"

fun ASSET_UNIVERSE_ASSET_CLASS_MAP :: "AssetUniverse \<Rightarrow> AssetClass" where
  "ASSET_UNIVERSE_ASSET_CLASS_MAP SP500 = USStocks"
| "ASSET_UNIVERSE_ASSET_CLASS_MAP EU50 = EUStocks"
| "ASSET_UNIVERSE_ASSET_CLASS_MAP FTSE100 = UKStocks"
| "ASSET_UNIVERSE_ASSET_CLASS_MAP Asian50 = AsianStocks"
| "ASSET_UNIVERSE_ASSET_CLASS_MAP BondsU = Bonds"
| "ASSET_UNIVERSE_ASSET_CLASS_MAP IndicesU = Indices"
| "ASSET_UNIVERSE_ASSET_CLASS_MAP ForexU = Forex"
| "ASSET_UNIVERSE_ASSET_CLASS_MAP CommoditiesU = Commodities"

definition SYMBOL_TO_ASSET_CLASS_MAP :: "(string \<times> AssetClass) list" where
  \<comment> \<open>the entries in the order they are \<open>set\<close>; a later entry replaces an earlier one\<close>
  "SYMBOL_TO_ASSET_CLASS_MAP =
     concat (map (\<lambda>universe. map (\<lambda>s. (s, ASSET_UNIVERSE_ASSET_CLASS_MAP universe))
                                   (ASSET_UNIVERSE_TICKER_MAP universe))
                 [SP500, EU50, FTSE100, Asian50, BondsU, IndicesU, ForexU, CommoditiesU])
     @ [(''BTC/USD'', Crypto), (''ETH/USD'', Crypto), (''SOL/USD'', Crypto)]"

definition symbolAssetClass :: "string \<Rightarrow> AssetClass" where
  \<comment> \<open>\<open>SYMBOL_TO_ASSET_CLASS_MAP.get(symbol) || AssetClass.USStocks\<close>\<close>
  "symbolAssetClass s =
     (case map_of (rev SYMBOL_TO_ASSET_CLASS_MAP) s of None \<Rightarrow> USStocks | Some a \<Rightarrow> a)"

fun ASSET_LEVERAGE_MAP :: "AssetClass \<Rightarrow> jsnum" where
  "ASSET_LEVERAGE_MAP USStocks = Fin 5"
| "ASSET_LEVERAGE_MAP GlobalStocks = Fin 5"
| "ASSET_LEVERAGE_MAP UKStocks = Fin 5"
| "ASSET_LEVERAGE_MAP EUStocks = Fin 5"
| "ASSET_LEVERAGE_MAP AsianStocks = Fin 5"
| "ASSET_LEVERAGE_MAP Crypto = Fin 10"
| "ASSET_LEVERAGE_MAP Commodities = Fin 20"
| "ASSET_LEVERAGE_MAP Forex = Fin 30"
| "ASSET_LEVERAGE_MAP Bonds = Fin 30"
| "ASSET_LEVERAGE_MAP Indices = Fin 20"

record SimulationParams =
  barsPerYear :: jsnum
  tradeProbability :: jsnum
  holdingTime :: string

fun getSimulationParams :: "Timeframe \<Rightarrow> SimulationParams" where
  "getSimulationParams TF_5Min =
     \<lparr>barsPerYear = Fin (252 * 7 * 12), tradeProbability = Fin (2 / 1000), holdingTime = ''5-60m''\<rparr>"
| "getSimulationParams TF_15Min =
     \<lparr>barsPerYear = Fin (252 * 7 * 4), tradeProbability = Fin (7 / 1000), holdingTime = ''15-180m''\<rparr>"
| "getSimulationParams TF_1Hour =
     \<lparr>barsPerYear = Fin (252 * 7), tradeProbability = Fin (3 / 100), holdingTime = ''1-8h''\<rparr>"
| "getSimulationParams TF_1Day =
     \<lparr>barsPerYear = Fin 252, tradeProbability = Fin (2 / 10), holdingTime = ''1-5d''\<rparr>"

section \<open>Risk metrics calculator\<close>

definition dailyReturns :: "PerformanceDataPoint list \<Rightarrow> jsnum list" where
  \<comment> \<open>\<open>performanceData.slice(1).map((point, i) => ...)\<close>: each point with its predecessor\<close>
  "dailyReturns pd =
     map (\<lambda>(point, prev).
            let prevValue = strategy prev
            in if jgt prevValue (Fin 0) then jdiv (jsub (strategy point) prevValue) prevValue
               else Fin 0)
         (zip (tl pd) pd)"

definition annualizedReturn :: "PerformanceDataPoint list \<Rightarrow> jsnum \<Rightarrow> jsnum" where
  "annualizedReturn pd bpy =
     jsub (Math_pow (jdiv (strategy (last pd)) (strategy (hd pd)))
                    (jdiv bpy (Fin (real (length (dailyReturns pd))))))
          (Fin 1)"

definition downsideReturns :: "PerformanceDataPoint list \<Rightarrow> jsnum list" where
  "downsideReturns pd = filter (\<lambda>r. jlt r (Fin 0)) (dailyReturns pd)"

definition downsideDeviation :: "PerformanceDataPoint list \<Rightarrow> jsnum \<Rightarrow> jsnum" where
  "downsideDeviation pd bpy =
     jmul (Math_sqrt (jdiv (foldl (\<lambda>acc r. jadd acc (Math_pow r (Fin 2))) (Fin 0) (downsideReturns pd))
                           (jor (Fin (real (length (downsideReturns pd)))) (Fin 1))))
          (Math_sqrt bpy)"

definition maxDrawdown :: "PerformanceDataPoint list \<Rightarrow> jsnum" where
  \<comment> \<open>\<open>Math.max(...performanceData.map(d => d.drawdown || 0))\<close>\<close>
  "maxDrawdown pd =
     Math_max (map (\<lambda>d. case drawdown d of None \<Rightarrow> Fin 0 | Some x \<Rightarrow> jor x (Fin 0)) pd)"

record AdvancedRatios =
  sortino :: jsnum
  calmar :: jsnum

definition sortinoRatio :: "PerformanceDataPoint list \<Rightarrow> jsnum \<Rightarrow> jsnum \<Rightarrow> jsnum" where
  \<comment> \<open>line 27: the constant \<open>sortino\<close>, before the check of line 34\<close>
  "sortinoRatio pd riskFreeRate bpy =
     (if jgt (downsideDeviation pd bpy) (Fin 0)
      then jdiv (jsub (annualizedReturn pd bpy) riskFreeRate) (downsideDeviation pd bpy)
      else Fin 0)"

definition calmarRatio :: "PerformanceDataPoint list \<Rightarrow> jsnum \<Rightarrow> jsnum" where
  \<comment> \<open>line 31: the constant \<open>calmar\<close>, before the check of line 35\<close>
  "calmarRatio pd bpy =
     (if jgt (maxDrawdown pd) (Fin 0) then jdiv (annualizedReturn pd bpy) (maxDrawdown pd)
      else Fin 0)"

definition calculateAdvancedRatios :: "PerformanceDataPoint list \<Rightarrow> jsnum \<Rightarrow> jsnum \<Rightarrow> AdvancedRatios" where
  "calculateAdvancedRatios pd riskFreeRate bpy =
     (if length pd < 2 then \<lparr>sortino = Fin 0, calmar = Fin 0\<rparr>
      else
        \<lparr>sortino = (if isFinite (sortinoRatio pd riskFreeRate bpy)
                    then sortinoRatio pd riskFreeRate bpy else Fin 0),
         calmar = (if isFinite (calmarRatio pd bpy) then calmarRatio pd bpy else Fin 0)\<rparr>)"

section \<open>Bar-level trade simulator\<close>

definition newSet :: "'a list \<Rightarrow> 'a list" where
  \<comment> \<open>\<open>[...new Set(xs)]\<close>: the first occurrence of each element, in order\<close>
  "newSet xs = rev (remdups (rev xs))"

definition dateOf :: "AlpacaBar \<Rightarrow> string" where
  \<comment> \<open>\<open>bar.t.split('T')[0]\<close>\<close>
  "dateOf b = takeWhile (\<lambda>ch. ch \<noteq> CHR ''T'') (bar_t b)"

definition slice :: "nat \<Rightarrow> nat \<Rightarrow> 'a list \<Rightarrow> 'a list" where
  "slice a b xs = take (b - a) (drop a xs)"

fun showNat :: "nat \<Rightarrow> string" where
  "showNat n =
     (if n < 10 then [char_of (48 + n)] else showNat (n div 10) @ [char_of (48 + n mod 10)])"

declare showNat.simps [simp del]

definition strategySymbols :: "SavedStrategy \<Rightarrow> string list" where
  "strategySymbols s =
     newSet (concat (map ASSET_UNIVERSE_TICKER_MAP (assetUniverses s)) @ customSymbols s)"

definition availableSymbols :: "(string \<times> AlpacaBar list) list \<Rightarrow> SavedStrategy \<Rightarrow> string list" where
  "availableSymbols dat s =
     filter (\<lambda>sym. case map_of dat sym of None \<Rightarrow> False | Some bars \<Rightarrow> 5 < length bars)
            (strategySymbols s)"

definition resolveExit :: "AlpacaBar \<Rightarrow> jsnum \<Rightarrow> jsnum \<Rightarrow> jsnum \<times> ExitReason" where
  \<comment> \<open>lines 175 to 184: the raw exit price and the exit reason\<close>
  "resolveExit currentBar stopLoss takeProfit =
     (if jle (bar_l currentBar) stopLoss then (stopLoss, SL)
      else if jge (bar_h currentBar) takeProfit then (takeProfit, TP)
      else (bar_c currentBar, EOD))"

definition openTrade :: "Env \<Rightarrow> SavedStrategy \<Rightarrow> string \<Rightarrow> AlpacaBar \<Rightarrow> nat \<Rightarrow> jsnum \<Rightarrow> Trade" where
  \<comment> \<open>lines 170 to 215: the trade opened on \<open>currentBar\<close> with the drawn risk/reward ratio\<close>
  "openTrade env strat symbolToTrade currentBar i potentialRR =
     (let entry = jmul (bar_o currentBar) (jadd (Fin 1) (jdiv (slippage env) (Fin 100)));
          stopDistance = jmul entry (jdiv (stopLossPercentage strat) (Fin 100));
          stopLoss = jsub entry stopDistance;
          takeProfit = jadd entry (jmul stopDistance potentialRR);
          (rawExit, reason) = resolveExit currentBar stopLoss takeProfit;
          exit = jmul rawExit (jsub (Fin 1) (jdiv (slippage env) (Fin 100)));
          cls = symbolAssetClass symbolToTrade;
          val = jmul (initialCapital env) (Fin (2 / 100));
          size = jdiv val entry;
          grossPnl = jmul (jsub exit entry) size;
          netPnl = jsub grossPnl (commission env)
      in \<lparr>tradeId = ''trade-'' @ showNat i @ ''-'' @ symbolToTrade,
          symbol = symbolToTrade,
          pnl = netPnl,
          pnlPercentage = jmul (jdiv netPnl val) (Fin 100),
          positionSize = size,
          tradeValue = val,
          leverage = calculateDynamicLeverage potentialRR (ASSET_LEVERAGE_MAP cls),
          tradeHoldingTime = holdingTime (getSimulationParams (timeframe env)),
          rr = potentialRR,
          tradeType = (if jgt netPnl (Fin 0) then WIN else LOSS),
          assetClass = cls,
          entryPrice = entry,
          exitPrice = exit,
          stopLossPrice = stopLoss,
          takeProfitPrice = takeProfit,
          tradeCommission = commission env,
          tradeSlippage = jadd (jmul entry (jdiv (slippage env) (Fin 100)))
                               (jmul exit (jdiv (slippage env) (Fin 100))),
          exitReason = reason\<rparr>)"

text \<open>The state the simulation loop mutates: the trade list, the date-keyed P&L object
  (an association list with one entry per key) and the number of random values drawn.\<close>

record SimState =
  simTrades :: "Trade list"
  dailyPnl :: "(string \<times> jsnum) list"
  drawn :: nat

definition touchDate :: "string \<Rightarrow> (string \<times> jsnum) list \<Rightarrow> (string \<times> jsnum) list" where
  \<comment> \<open>\<open>dailyPnl[date] = dailyPnl[date] || 0\<close>\<close>
  "touchDate d m =
     AList.update d (case map_of m d of None \<Rightarrow> Fin 0 | Some x \<Rightarrow> jor x (Fin 0)) m"

definition addPnl :: "string \<Rightarrow> jsnum \<Rightarrow> (string \<times> jsnum) list \<Rightarrow> (string \<times> jsnum) list" where
  \<comment> \<open>\<open>dailyPnl[date] += netPnl\<close>; a missing key would read \<open>undefined\<close> and store \<open>NaN\<close>\<close>
  "addPnl d x m =
     AList.update d (case map_of m d of None \<Rightarrow> NaN | Some y \<Rightarrow> jadd y x) m"

definition pickSymbol :: "string list \<Rightarrow> real \<Rightarrow> string option" where
  \<comment> \<open>\<open>xs[Math.floor(r * xs.length)]\<close>; out of range reads \<open>undefined\<close>\<close>
  "pickSymbol xs r =
     (let k = \<lfloor>r * real (length xs)\<rfloor>
      in if 0 \<le> k \<and> k < int (length xs) then Some (xs ! nat k) else None)"

definition simulateBar ::
  "Env \<Rightarrow> SavedStrategy \<Rightarrow> string list \<Rightarrow> (string \<times> AlpacaBar list) list \<Rightarrow> AlpacaBar list
     \<Rightarrow> nat \<Rightarrow> SimState \<Rightarrow> SimState" where
  \<comment> \<open>the body of the loop of line 152, at index \<open>i\<close>; every \<open>continue\<close> returns the state\<close>
  "simulateBar env strat avail dat timelineBars i st =
     (let d = dateOf (timelineBars ! i);
          st1 = st\<lparr>dailyPnl := touchDate d (dailyPnl st), drawn := Suc (drawn st)\<rparr>
      in if \<not> jlt (Fin (random env (drawn st))) (tradeProbability (getSimulationParams (timeframe env)))
         then st1
         else
           let st2 = st1\<lparr>drawn := Suc (drawn st1)\<rparr>
           in case pickSymbol avail (random env (drawn st1)) of
                None \<Rightarrow> st2
              | Some symbolToTrade \<Rightarrow>
                 (case map_of dat symbolToTrade of
                    None \<Rightarrow> st2
                  | Some symbolBars \<Rightarrow>
                     if length symbolBars \<le> i then st2
                     else
                       let currentBar = symbolBars ! i;
                           weeklySma = jdiv (foldl (\<lambda>sum p. jadd sum (bar_c p)) (Fin 0)
                                                    (slice (i - 5) i symbolBars))
                                            (Fin 5);
                           isUptrend = jgt (bar_c currentBar) weeklySma
                       in if useWeeklyBias env \<and> \<not> isUptrend then st2
                          else
                            let potentialRR = jadd (Fin (5 / 2))
                                                   (jmul (Fin (random env (drawn st2))) (Fin (5 / 2)));
                                tr = openTrade env strat symbolToTrade currentBar i potentialRR
                            in st2\<lparr>simTrades := simTrades st2 @ [tr],
                                    dailyPnl := addPnl d (pnl tr) (dailyPnl st2),
                                    drawn := Suc (drawn st2)\<rparr>))"

function barLoop ::
  "Env \<Rightarrow> SavedStrategy \<Rightarrow> string list \<Rightarrow> (string \<times> AlpacaBar list) list \<Rightarrow> AlpacaBar list
     \<Rightarrow> nat \<Rightarrow> SimState \<Rightarrow> SimState" where
  "barLoop env strat avail dat timelineBars i st =
     (if i < length timelineBars
      then barLoop env strat avail dat timelineBars (Suc i)
             (simulateBar env strat avail dat timelineBars i st)
      else st)"
  by pat_completeness auto
termination
  by (relation "measure (\<lambda>(env, strat, avail, dat, timelineBars, i, st). length timelineBars - i)")
     auto

declare barLoop.simps [simp del]

definition simulateStrategy ::
  "Env \<Rightarrow> (string \<times> AlpacaBar list) list \<Rightarrow> SimState \<Rightarrow> SavedStrategy \<Rightarrow> SimState" where
  \<comment> \<open>the body of the loop of line 144; the timeline is the first available symbol's bars\<close>
  "simulateStrategy env dat st strat =
     (case availableSymbols dat strat of
        [] \<Rightarrow> st
      | first # others \<Rightarrow>
         (case map_of dat first of
            None \<Rightarrow> st
          | Some timelineBars \<Rightarrow> barLoop env strat (first # others) dat timelineBars 5 st))"

definition simulate :: "Env \<Rightarrow> (string \<times> AlpacaBar list) list \<Rightarrow> SavedStrategy list \<Rightarrow> SimState" where
  "simulate env dat strats =
     foldl (simulateStrategy env dat) \<lparr>simTrades = [], dailyPnl = [], drawn = 0\<rparr> strats"

section \<open>Equity curve builder\<close>

definition spyInitialPrice :: "AlpacaBar list option \<Rightarrow> jsnum option" where
  \<comment> \<open>\<open>spyData?.[0]?.c\<close>\<close>
  "spyInitialPrice spyData =
     (case spyData of None \<Rightarrow> None | Some [] \<Rightarrow> None | Some (b # bs) \<Rightarrow> Some (bar_c b))"

definition dateToSpyPriceMap :: "AlpacaBar list option \<Rightarrow> string \<Rightarrow> jsnum option" where
  \<comment> \<open>\<open>new Map(spyData?.map(bar => [date, bar.c]))\<close>: the last bar of a date wins\<close>
  "dateToSpyPriceMap spyData =
     (case spyData of
        None \<Rightarrow> (\<lambda>d. None)
      | Some bars \<Rightarrow> map_of (rev (map (\<lambda>b. (dateOf b, bar_c b)) bars)))"

definition benchmarkValue :: "jsnum \<Rightarrow> jsnum option \<Rightarrow> jsnum option \<Rightarrow> jsnum \<Rightarrow> jsnum" where
  \<comment> \<open>lines 242 to 245: the benchmark is rebased when both prices are truthy, else carried\<close>
  "benchmarkValue capital currentSpyPrice spyInitial spyValue =
     (case (currentSpyPrice, spyInitial) of
        (Some cur, Some ini) \<Rightarrow>
          if truthy cur \<and> truthy ini then jmul capital (jdiv cur ini) else spyValue
      | _ \<Rightarrow> spyValue)"

definition pnlOn :: "(string \<times> jsnum) list \<Rightarrow> string \<Rightarrow> jsnum" where
  \<comment> \<open>\<open>dailyPnl[date]\<close> read as a number; a missing key reads \<open>undefined\<close>, which adds as \<open>NaN\<close>\<close>
  "pnlOn pnlByDate d = (case map_of pnlByDate d of None \<Rightarrow> NaN | Some x \<Rightarrow> x)"

record CurveState =
  portfolioValue :: jsnum
  peakValue :: jsnum
  spyValue :: jsnum
  points :: "PerformanceDataPoint list"

definition curveStep ::
  "jsnum \<Rightarrow> AlpacaBar list option \<Rightarrow> (string \<times> jsnum) list \<Rightarrow> CurveState \<Rightarrow> string \<Rightarrow> CurveState" where
  \<comment> \<open>the body of the loop of line 234\<close>
  "curveStep capital spyData pnlByDate cs d =
     (let pv = jadd (portfolioValue cs) (pnlOn pnlByDate d);
          peak = (if jgt pv (peakValue cs) then pv else peakValue cs);
          dd = jdiv (jsub peak pv) peak;
          spy = benchmarkValue capital (dateToSpyPriceMap spyData d) (spyInitialPrice spyData)
                  (spyValue cs)
      in \<lparr>portfolioValue = pv, peakValue = peak, spyValue = spy,
          points = points cs @ [\<lparr>date = d, strategy = pv, sp500 = spy, drawdown = Some dd\<rparr>]\<rparr>)"

definition sortedDates :: "(string \<times> jsnum) list \<Rightarrow> string list" where
  \<comment> \<open>\<open>Object.keys(dailyPnl).sort()\<close>\<close>
  "sortedDates pnlByDate = sort (map fst pnlByDate)"

definition buildCurve ::
  "jsnum \<Rightarrow> AlpacaBar list option \<Rightarrow> (string \<times> jsnum) list \<Rightarrow> CurveState" where
  "buildCurve capital spyData pnlByDate =
     foldl (curveStep capital spyData pnlByDate)
           \<lparr>portfolioValue = capital, peakValue = capital, spyValue = capital, points = []\<rparr>
           (sortedDates pnlByDate)"

section \<open>Result assembler and the run\<close>

definition mean :: "jsnum list \<Rightarrow> jsnum" where
  \<comment> \<open>\<open>xs.length > 0 ? xs.reduce((sum, x) => sum + x, 0) / xs.length : 0\<close>\<close>
  "mean xs =
     (if 0 < length xs then jdiv (foldl jadd (Fin 0) xs) (Fin (real (length xs))) else Fin 0)"

definition summarize :: "Trade list \<Rightarrow> BacktestSummary" where
  "summarize ts =
     (let winningTrades = filter (\<lambda>t. tradeType t = WIN) ts
      in \<lparr>trades = length ts,
          wins = length winningTrades,
          losses = length ts - length winningTrades,
          winRate = (if 0 < length ts
                     then jmul (jdiv (Fin (real (length winningTrades))) (Fin (real (length ts))))
                               (Fin 100)
                     else Fin 0),
          avgWin = mean (map pnl winningTrades),
          avgLoss = mean (map pnl (filter (\<lambda>t. tradeType t = LOSS) ts)),
          avgRR = mean (map rr ts),
          avgPositionSize = mean (map tradeValue ts),
          avgLeverage = mean (map leverage ts)\<rparr>)"

definition selectedStrategies :: "Env \<Rightarrow> SavedStrategy list" where
  "selectedStrategies env =
     filter (\<lambda>s. strategyId s \<in> set (selectedStrategyIds env)) (savedStrategies env)"

definition allSymbols :: "Env \<Rightarrow> string list" where
  "allSymbols env =
     newSet (concat (map (\<lambda>s. concat (map ASSET_UNIVERSE_TICKER_MAP (assetUniverses s))
                               @ customSymbols s)
                         (selectedStrategies env)))"

definition symbolsToFetch :: "Env \<Rightarrow> string list" where
  "symbolsToFetch env = newSet (''SPY'' # allSymbols env)"

definition assemble ::
  "Env \<Rightarrow> CurveState \<Rightarrow> Trade list \<Rightarrow> BacktestResults" where
  \<comment> \<open>lines 261 to 296\<close>
  "assemble env cs ts =
     (let totalReturn = jsub (portfolioValue cs) (initialCapital env);
          totalReturnPercent = jmul (jdiv totalReturn (initialCapital env)) (Fin 100);
          ratios = calculateAdvancedRatios (points cs) (Fin (2 / 100))
                     (barsPerYear (getSimulationParams (timeframe env)))
      in \<lparr>metrics =
            [(''Total P&L'', totalReturn),
             (''Total Return'', totalReturnPercent),
             (''Max Drawdown'', jmul (maxDrawdown (points cs)) (Fin 100)),
             (''Sortino Ratio'', sortino ratios),
             (''Calmar Ratio'', calmar ratios)],
          performanceData = points cs,
          allTrades = ts,
          stopLossFeedback = optimizationFeedback env,
          summary = summarize ts,
          config = \<lparr>cfgStartDate = startDate env, cfgEndDate = endDate env,
                     cfgInitialCapital = initialCapital env, cfgCommission = commission env,
                     cfgSlippage = slippage env\<rparr>\<rparr>)"

definition dataResult :: "Env \<Rightarrow> BackendResponse" where
  \<comment> \<open>line 126: the provider's answer for the symbols to fetch\<close>
  "dataResult env =
     fetchStockHistoricalData env (symbolsToFetch env) (startDate env) (endDate env) (timeframe env)"

definition handleRunBacktest :: "Env \<Rightarrow> Outcome" where
  "handleRunBacktest env =
     (if selectedStrategyIds env = [] then Failed InputError
      else
        case data (dataResult env) of
          None \<Rightarrow> Failed DataUnavailableError
        | Some dat \<Rightarrow>
            if \<not> success (dataResult env) \<or> dat = [] then Failed DataUnavailableError
            else
              let st = simulate env dat (selectedStrategies env);
                  cs = buildCurve (initialCapital env) (map_of dat ''SPY'') (dailyPnl st)
              in if points cs = [] then Failed EmptyResultError
                 else Completed (assemble env cs (simTrades st)))"

section \<open>Invariants\<close>

text \<open>The dates of a strategy's timeline: the dates of the bars from index 5 on of its first
  available symbol (none when it has no available symbol).\<close>

definition timelineDates :: "(string \<times> AlpacaBar list) list \<Rightarrow> SavedStrategy \<Rightarrow> string set" where
  "timelineDates dat strat =
     (case availableSymbols dat strat of
        [] \<Rightarrow> {}
      | first # others \<Rightarrow>
         (case map_of dat first of None \<Rightarrow> {} | Some timelineBars \<Rightarrow> dateOf ` set (drop 5 timelineBars)))"

text \<open>The invariant of the equity-curve loop for a positive initial capital \<open>c0\<close>: while
  the portfolio value is finite the peak is finite, at least \<open>c0\<close> and at least the value;
  and every point emitted with a finite value has a drawdown that is at least \<open>0\<close>, at
  most \<open>1\<close> when the value is not negative and at least \<open>1\<close> when it is negative. The
  bounds are kept as inequalities between the computed numbers, which the rounding of the
  subtraction and of the division preserves.\<close>

definition curveInv :: "real \<Rightarrow> CurveState \<Rightarrow> bool" where
  "curveInv c0 cs =
     ((\<forall>v. portfolioValue cs = Fin v \<longrightarrow> (\<exists>pk. peakValue cs = Fin pk \<and> c0 \<le> pk \<and> v \<le> pk))
      \<and> (\<forall>p \<in> set (points cs). \<forall>v. strategy p = Fin v \<longrightarrow>
            (\<exists>dd. drawdown p = Some dd \<and> jle (Fin 0) dd
                  \<and> (0 \<le> v \<longrightarrow> jle dd (Fin 1)) \<and> (v < 0 \<longrightarrow> jle (Fin 1) dd))))"

text \<open>A trade is opened on a bar of the data: it is the trade of \<open>openTrade\<close> for some
  strategy, symbol, bar index and drawn risk/reward ratio.\<close>

definition openedOn :: "Env \<Rightarrow> (string \<times> AlpacaBar list) list \<Rightarrow> Trade \<Rightarrow> bool" where
  "openedOn env dat t =
     (\<exists>strat smb bars i prr. map_of dat smb = Some bars \<and> i < length bars
        \<and> t = openTrade env strat smb (bars ! i) i prr)"

section \<open>Example inputs\<close>

text \<open>Six flat daily bars at \<open>100\<close>, and a run over one saved strategy whose symbols are
  the given custom symbols. The provider serves the six bars for every symbol it is asked
  for; every random draw returns the same value \<open>r\<close>; slippage is \<open>0\<close>, the stop-loss
  is \<open>2%\<close> and the trend filter is off.\<close>

definition flatBar :: "string \<Rightarrow> AlpacaBar" where
  "flatBar d =
     \<lparr>bar_t = d, bar_o = Fin 100, bar_h = Fin 100, bar_l = Fin 100, bar_c = Fin 100,
      bar_v = Fin 1000\<rparr>"

definition flatBars :: "AlpacaBar list" where
  "flatBars =
     map flatBar
       [''2024-01-01T05:00:00Z'', ''2024-01-02T05:00:00Z'', ''2024-01-03T05:00:00Z'',
        ''2024-01-04T05:00:00Z'', ''2024-01-05T05:00:00Z'', ''2024-01-08T05:00:00Z'']"

definition exampleStrategy :: "string list \<Rightarrow> SavedStrategy" where
  "exampleStrategy customs =
     \<lparr>strategyId = ''s1'', assetUniverses = [], customSymbols = customs,
      stopLossPercentage = Fin 2\<rparr>"

definition exampleEnv :: "jsnum \<Rightarrow> jsnum \<Rightarrow> real \<Rightarrow> string list \<Rightarrow> Env" where
  "exampleEnv capital comm r customs =
     \<lparr>selectedStrategyIds = [''s1''],
      savedStrategies = [exampleStrategy customs],
      startDate = ''2024-01-01'',
      endDate = ''2024-01-09'',
      initialCapital = capital,
      commission = comm,
      slippage = Fin 0,
      useWeeklyBias = False,
      timeframe = TF_1Day,
      fetchStockHistoricalData =
        (\<lambda>symbols start end tf. \<lparr>success = True, data = Some (map (\<lambda>s. (s, flatBars)) symbols)\<rparr>),
      optimizationFeedback = [],
      random = (\<lambda>n. r)\<rparr>"

definition wideBar :: AlpacaBar where
  \<comment> \<open>a bar whose range covers both the stop-loss and the take-profit of a trade opened at 100\<close>
  "wideBar =
     \<lparr>bar_t = ''2024-01-08T05:00:00Z'', bar_o = Fin 100, bar_h = Fin 130, bar_l = Fin 80,
      bar_c = Fin 100, bar_v = Fin 1000\<rparr>"

definition flatCurve :: "PerformanceDataPoint list" where
  "flatCurve =
     [\<lparr>date = ''2024-01-08'', strategy = Fin 100, sp500 = Fin 100, drawdown = Some (Fin 0)\<rparr>,
      \<lparr>date = ''2024-01-09'', strategy = Fin 100, sp500 = Fin 100, drawdown = Some (Fin 0)\<rparr>]"

definition resultOf :: "Outcome \<Rightarrow> BacktestResults option" where
  "resultOf out = (case out of Completed res \<Rightarrow> Some res | Failed e \<Rightarrow> None)"

definition curveOf :: "Outcome \<Rightarrow> PerformanceDataPoint list" where
  "curveOf out = (case out of Completed res \<Rightarrow> performanceData res | Failed e \<Rightarrow> [])"

definition tradesOf :: "Outcome \<Rightarrow> Trade list" where
  "tradesOf out = (case out of Completed res \<Rightarrow> allTrades res | Failed e \<Rightarrow> [])"

definition errorOf :: "Outcome \<Rightarrow> EngineError option" where
  "errorOf out = (case out of Completed res \<Rightarrow> None | Failed e \<Rightarrow> Some e)"

section \<open>Leverage sizer: properties\<close>

lemma interpolation_bounds:
  fixes c :: real
  assumes m: "2 < m" and c: "5 / 2 \<le> c" "c \<le> 5"
  defines "L \<equiv> 2 + (c - 5 / 2) / (5 / 2) * (of_int m - 2)"
  shows "2 \<le> L" and "L \<le> of_int m"
proof -
  define t where "t = (c - 5 / 2) / (5 / 2)"
  have t: "0 \<le> t" "t \<le> 1" using c by (simp_all add: t_def)
  define w :: real where "w = of_int m - 2"
  have w: "0 < w" using m by (simp add: w_def)
  have L: "L = 2 + t * w" by (simp only: L_def t_def w_def)
  have lo: "0 \<le> t * w" using t w by simp
  have hi: "t * w \<le> w" using t w by (simp add: mult_left_le_one_le)
  show "2 \<le> L" using lo by (simp add: L)
  show "L \<le> of_int m" using hi unfolding L by (simp add: w_def)
qed

lemma round_bounds:
  fixes L :: real
  assumes "2 \<le> L" "L \<le> of_int m"
  shows "2 \<le> \<lfloor>L + 1 / 2\<rfloor>" and "\<lfloor>L + 1 / 2\<rfloor> \<le> m"
proof -
  have "(2::real) \<le> L + 1 / 2" using assms(1) by simp
  then show "2 \<le> \<lfloor>L + 1 / 2\<rfloor>" by (simp add: le_floor_iff)
  have "L + 1 / 2 < of_int (m + 1)" using assms(2) by simp
  then have "\<lfloor>L + 1 / 2\<rfloor> < m + 1" by (simp only: floor_less_iff)
  then show "\<lfloor>L + 1 / 2\<rfloor> \<le> m" by simp
qed

text \<open>
  Claim C1, as amended. For every risk/reward ratio \<open>rr\<close> that is at least \<open>2.5\<close>
  (\<open>+Infinity\<close> included) and every integer \<open>maxLeverage\<close>, \<open>calculateDynamicLeverage\<close>
  returns an integer \<open>r\<close> with \<open>2 \<le> r \<le> max(2, maxLeverage)\<close>: the result is \<open>2\<close>
  when \<open>maxLeverage \<le> 2\<close> and lies between \<open>2\<close> and \<open>maxLeverage\<close> otherwise. A ratio
  above \<open>5\<close> is treated as \<open>5\<close>.
\<close>

theorem calculateDynamicLeverage_range:
  assumes "jle (Fin (5 / 2)) ratio"
  shows "\<exists>k. calculateDynamicLeverage ratio (Fin (of_int m)) = Fin (of_int k)
            \<and> 2 \<le> k \<and> k \<le> max 2 m
            \<and> calculateDynamicLeverage (Math_min ratio (Fin 5)) (Fin (of_int m)) = Fin (of_int k)"
proof (cases "m \<le> 2")
  case True
  then have "calculateDynamicLeverage ratio (Fin (of_int m)) = Fin (of_int 2)"
    by (simp add: calculateDynamicLeverage_def jsub_def jle_def)
  moreover have "calculateDynamicLeverage (Math_min ratio (Fin 5)) (Fin (of_int m)) = Fin (of_int 2)"
    using True by (simp add: calculateDynamicLeverage_def jsub_def jle_def)
  ultimately show ?thesis using True by auto
next
  case False
  then have m: "2 < m" by simp
  have "\<exists>c. Math_min ratio (Fin 5) = Fin c \<and> 5 / 2 \<le> c \<and> c \<le> 5"
    using assms by (cases ratio) (simp_all add: Math_min_def jle_def)
  then obtain c where c: "Math_min ratio (Fin 5) = Fin c" "5 / 2 \<le> c" "c \<le> 5"
    by blast
  define L :: real where "L = 2 + (c - 5 / 2) / (5 / 2) * (of_int m - 2)"
  note b = interpolation_bounds[OF m c(2,3), folded L_def]
  note r = round_bounds[OF b]
  have "jadd (Fin 2) (jmul (jdiv (jsub (Fin c) (Fin (5 / 2))) (jsub (Fin 5) (Fin (5 / 2))))
          (jsub (Fin (of_int m)) (Fin 2))) = Fin L"
    by (simp add: jsub_def L_def)
  moreover have "Math_min (Fin L) (Fin (of_int m)) = Fin L"
    using b(2) by (simp add: Math_min_def)
  moreover have "\<not> jle (jsub (Fin 5) (Fin (5 / 2))) (Fin 0)"
    by (simp add: jsub_def jle_def)
  moreover have "\<not> jle (jsub (Fin (of_int m)) (Fin 2)) (Fin 0)"
    using m by (simp add: jsub_def jle_def)
  ultimately have "calculateDynamicLeverage ratio (Fin (of_int m)) = Fin (of_int \<lfloor>L + 1 / 2\<rfloor>)"
    using c(1) by (simp only: calculateDynamicLeverage_def Let_def Math_round.simps if_False simp_thms)
  moreover have "Math_min (Math_min ratio (Fin 5)) (Fin 5) = Math_min ratio (Fin 5)"
    using c by (simp add: Math_min_def)
  then have "calculateDynamicLeverage (Math_min ratio (Fin 5)) (Fin (of_int m))
      = calculateDynamicLeverage ratio (Fin (of_int m))"
    by (simp add: calculateDynamicLeverage_def Let_def)
  ultimately show ?thesis using r m by auto
qed

theorem calculateDynamicLeverage_range_witness:
  "jle (Fin (5 / 2)) (Fin (15 / 4))
   \<and> (\<exists>k. calculateDynamicLeverage (Fin (15 / 4)) (Fin (of_int 10)) = Fin (of_int k)
          \<and> 2 \<le> k \<and> k \<le> max 2 10)"
  using calculateDynamicLeverage_range [of "Fin (15 / 4)" 10] by (auto simp: jle_def)

text \<open>
  Claim C1 as stated fails twice. A ratio below \<open>2.5\<close> is not clamped: at \<open>rr = 0\<close>,
  \<open>maxLeverage = 20\<close> the result is \<open>-16\<close>, neither the result at \<open>rr = 2.5\<close> nor at
  least \<open>2\<close>. And at \<open>maxLeverage = 1\<close> the result \<open>2\<close> exceeds \<open>maxLeverage\<close>.
\<close>

theorem calculateDynamicLeverage_unclamped_counterexample:
  "calculateDynamicLeverage (Fin 0) (Fin 20) = Fin (- 16)
   \<and> calculateDynamicLeverage (Fin (5 / 2)) (Fin 20) = Fin 2
   \<and> \<not> jle (Fin 2) (calculateDynamicLeverage (Fin 0) (Fin 20))
   \<and> calculateDynamicLeverage (Fin 3) (Fin 1) = Fin 2
   \<and> \<not> jle (calculateDynamicLeverage (Fin 3) (Fin 1)) (Fin 1)"
  by (simp add: calculateDynamicLeverage_def Math_min_def jsub_def jle_def)

text \<open>
  Claim C9. The three leverage test vectors: \<open>calculateDynamicLeverage(2.5, 20) = 2\<close>,
  \<open>calculateDynamicLeverage(5.0, 20) = 20\<close> and \<open>calculateDynamicLeverage(3.75, 10) = 6\<close>.
\<close>

theorem calculateDynamicLeverage_test_vectors:
  "calculateDynamicLeverage (Fin (5 / 2)) (Fin 20) = Fin 2
   \<and> calculateDynamicLeverage (Fin 5) (Fin 20) = Fin 20
   \<and> calculateDynamicLeverage (Fin (15 / 4)) (Fin 10) = Fin 6"
  by (simp add: calculateDynamicLeverage_def Math_min_def jsub_def jle_def)

section \<open>Trade simulator: exit resolution\<close>

lemma openTrade_fields:
  "stopLossPrice (openTrade env strat smb bar i prr)
     = jsub (jmul (bar_o bar) (jadd (Fin 1) (jdiv (slippage env) (Fin 100))))
            (jmul (jmul (bar_o bar) (jadd (Fin 1) (jdiv (slippage env) (Fin 100))))
                  (jdiv (stopLossPercentage strat) (Fin 100)))"
  "takeProfitPrice (openTrade env strat smb bar i prr)
     = jadd (jmul (bar_o bar) (jadd (Fin 1) (jdiv (slippage env) (Fin 100))))
            (jmul (jmul (jmul (bar_o bar) (jadd (Fin 1) (jdiv (slippage env) (Fin 100))))
                        (jdiv (stopLossPercentage strat) (Fin 100))) prr)"
  by (simp_all add: openTrade_def Let_def split: prod.splits)

lemma openTrade_exit:
  "exitReason (openTrade env strat smb bar i prr)
     = snd (resolveExit bar (stopLossPrice (openTrade env strat smb bar i prr))
                            (takeProfitPrice (openTrade env strat smb bar i prr)))"
  "exitPrice (openTrade env strat smb bar i prr)
     = jmul (fst (resolveExit bar (stopLossPrice (openTrade env strat smb bar i prr))
                                  (takeProfitPrice (openTrade env strat smb bar i prr))))
            (jsub (Fin 1) (jdiv (slippage env) (Fin 100)))"
  by (simp_all add: openTrade_def Let_def split: prod.splits)

lemma openedOnI:
  assumes "map_of dat smb = Some bars" and "i < length bars"
  shows "openedOn env dat (openTrade env strat smb (bars ! i) i prr)"
  unfolding openedOn_def using assms by blast

lemma simulateBar_opened:
  assumes "\<forall>t \<in> set (simTrades st). openedOn env dat t"
  shows "\<forall>t \<in> set (simTrades (simulateBar env strat avail dat tb i st)). openedOn env dat t"
  using assms
  by (auto simp: simulateBar_def Let_def not_le openedOnI split: option.splits)

lemma barLoop_opened:
  assumes "\<forall>t \<in> set (simTrades st). openedOn env dat t"
  shows "\<forall>t \<in> set (simTrades (barLoop env strat avail dat tb i st)). openedOn env dat t"
  using assms
proof (induction env strat avail dat tb i st rule: barLoop.induct)
  case (1 env strat avail dat tb i st)
  show ?case
  proof (cases "i < length tb")
    case True
    then show ?thesis
      using "1.IH"[OF True simulateBar_opened[OF "1.prems"]] by (subst barLoop.simps) simp
  next
    case False
    then show ?thesis using "1.prems" by (subst barLoop.simps) simp
  qed
qed

lemma foldl_simulateStrategy_opened:
  assumes "\<forall>t \<in> set (simTrades st). openedOn env dat t"
  shows "\<forall>t \<in> set (simTrades (foldl (simulateStrategy env dat) st strats)). openedOn env dat t"
  using assms
proof (induction strats arbitrary: st)
  case Nil
  then show ?case by simp
next
  case (Cons s strats)
  have "\<forall>t \<in> set (simTrades (simulateStrategy env dat st s)). openedOn env dat t"
    using Cons.prems barLoop_opened[OF Cons.prems]
    by (simp add: simulateStrategy_def split: list.splits option.splits)
  from Cons.IH[OF this] show ?case by simp
qed

text \<open>Every trade of a simulation, hence of a completed run, is a trade of \<open>openTrade\<close> on
  a bar of the traded symbol: the two theorems below are about all the trades of a run.\<close>

lemma simulate_opened:
  "\<forall>t \<in> set (simTrades (simulate env dat strats)). openedOn env dat t"
  unfolding simulate_def by (rule foldl_simulateStrategy_opened) simp

lemmas openTrade_eval =
  openTrade_def exampleEnv_def exampleStrategy_def wideBar_def flatBar_def resolveExit_def
  Let_def jsub_def jle_def jge_def jgt_def

text \<open>
  Claim C5. A trade opened on a bar with \<open>low \<le> stopLossPrice\<close> and
  \<open>high \<ge> takeProfitPrice\<close> is emitted with exit reason \<open>SL\<close>: the stop-loss check
  comes first.
\<close>

theorem stop_loss_precedes_take_profit:
  assumes "t = openTrade env strat smb currentBar i potentialRR"
    and "jle (bar_l currentBar) (stopLossPrice t)"
    and "jge (bar_h currentBar) (takeProfitPrice t)"
  shows "exitReason t = SL"
  using assms(2) unfolding assms(1) openTrade_exit(1) by (simp add: resolveExit_def)

theorem stop_loss_precedes_take_profit_witness:
  "jle (bar_l wideBar)
       (stopLossPrice (openTrade (exampleEnv (Fin 100000) (Fin (1 / 2)) 0 [''XYZ''])
                         (exampleStrategy [''XYZ'']) ''XYZ'' wideBar 5 (Fin (5 / 2))))
   \<and> jge (bar_h wideBar)
       (takeProfitPrice (openTrade (exampleEnv (Fin 100000) (Fin (1 / 2)) 0 [''XYZ''])
                         (exampleStrategy [''XYZ'']) ''XYZ'' wideBar 5 (Fin (5 / 2))))
   \<and> exitReason (openTrade (exampleEnv (Fin 100000) (Fin (1 / 2)) 0 [''XYZ''])
                         (exampleStrategy [''XYZ'']) ''XYZ'' wideBar 5 (Fin (5 / 2))) = SL"
proof -
  let ?t = "openTrade (exampleEnv (Fin 100000) (Fin (1 / 2)) 0 [''XYZ''])
                         (exampleStrategy [''XYZ'']) ''XYZ'' wideBar 5 (Fin (5 / 2))"
  have a: "jle (bar_l wideBar) (stopLossPrice ?t)"
    by (simp add: openTrade_fields) (simp add: openTrade_eval)
  have b: "jge (bar_h wideBar) (takeProfitPrice ?t)"
    by (simp add: openTrade_fields) (simp add: openTrade_eval)
  show ?thesis using a b stop_loss_precedes_take_profit [OF refl a b] by simp
qed

text \<open>
  Claim C6. A trade opened on a bar with \<open>low > stopLossPrice\<close> and
  \<open>high < takeProfitPrice\<close> exits with reason \<open>EOD\<close> (end of period) at the bar's close,
  and the recorded exit price is \<open>close \<times> (1 - slippage / 100)\<close>.
\<close>

theorem end_of_period_exit:
  assumes "t = openTrade env strat smb currentBar i potentialRR"
    and "jgt (bar_l currentBar) (stopLossPrice t)"
    and "jlt (bar_h currentBar) (takeProfitPrice t)"
  shows "exitReason t = EOD
         \<and> exitPrice t = jmul (bar_c currentBar) (jsub (Fin 1) (jdiv (slippage env) (Fin 100)))"
  using assms(2,3) unfolding assms(1) openTrade_exit
  by (simp add: resolveExit_def jgt_def jle_def jge_def)

theorem end_of_period_exit_witness:
  "jgt (bar_l (flatBar ''2024-01-08T05:00:00Z''))
       (stopLossPrice (openTrade (exampleEnv (Fin 100000) (Fin (1 / 2)) 0 [''XYZ''])
          (exampleStrategy [''XYZ'']) ''XYZ'' (flatBar ''2024-01-08T05:00:00Z'') 5 (Fin (5 / 2))))
   \<and> jlt (bar_h (flatBar ''2024-01-08T05:00:00Z''))
       (takeProfitPrice (openTrade (exampleEnv (Fin 100000) (Fin (1 / 2)) 0 [''XYZ''])
          (exampleStrategy [''XYZ'']) ''XYZ'' (flatBar ''2024-01-08T05:00:00Z'') 5 (Fin (5 / 2))))
   \<and> exitReason (openTrade (exampleEnv (Fin 100000) (Fin (1 / 2)) 0 [''XYZ''])
          (exampleStrategy [''XYZ'']) ''XYZ'' (flatBar ''2024-01-08T05:00:00Z'') 5 (Fin (5 / 2))) = EOD
   \<and> exitPrice (openTrade (exampleEnv (Fin 100000) (Fin (1 / 2)) 0 [''XYZ''])
          (exampleStrategy [''XYZ'']) ''XYZ'' (flatBar ''2024-01-08T05:00:00Z'') 5 (Fin (5 / 2))) = Fin 100"
proof -
  let ?b = "flatBar ''2024-01-08T05:00:00Z''"
  let ?e = "exampleEnv (Fin 100000) (Fin (1 / 2)) 0 [''XYZ'']"
  let ?t = "openTrade ?e (exampleStrategy [''XYZ'']) ''XYZ'' ?b 5 (Fin (5 / 2))"
  have a: "jgt (bar_l ?b) (stopLossPrice ?t)"
    by (simp add: openTrade_fields) (simp add: openTrade_eval)
  have b: "jlt (bar_h ?b) (takeProfitPrice ?t)"
    by (simp add: openTrade_fields) (simp add: openTrade_eval)
  have c: "jmul (bar_c ?b) (jsub (Fin 1) (jdiv (slippage ?e) (Fin 100))) = Fin 100"
    by (simp add: openTrade_eval)
  show ?thesis using a b c end_of_period_exit [OF refl a b] by simp
qed

section \<open>Risk metrics: degenerate inputs\<close>

lemma jmul_zero_sqrt: "jgt (jmul (Fin 0) (Math_sqrt b)) (Fin 0) = False"
  by (cases b) (simp_all add: jgt_def infTimes_def)

lemma downsideDeviation_no_downside:
  assumes "downsideReturns pd = []"
  shows "downsideDeviation pd bpy = jmul (Fin 0) (Math_sqrt bpy)"
  using assms by (simp add: downsideDeviation_def jor_def truthy_def)

text \<open>
  Claim C7. The two ratios returned by \<open>calculateAdvancedRatios\<close> are always finite: a
  non-finite Sortino or Calmar value is replaced by \<open>0\<close>. When no per-period return is
  strictly negative the downside deviation is \<open>0\<close> (for a finite bars-per-year factor
  \<open>\<ge> 0\<close>) and the Sortino ratio is \<open>0\<close>; when the maximum drawdown is \<open>0\<close> the Calmar
  ratio is \<open>0\<close>.
\<close>

theorem calculateAdvancedRatios_degenerate:
  "isFinite (sortino (calculateAdvancedRatios pd rf bpy))
   \<and> isFinite (calmar (calculateAdvancedRatios pd rf bpy))
   \<and> (2 \<le> length pd \<longrightarrow>
        sortino (calculateAdvancedRatios pd rf bpy)
          = (if isFinite (sortinoRatio pd rf bpy) then sortinoRatio pd rf bpy else Fin 0)
        \<and> calmar (calculateAdvancedRatios pd rf bpy)
          = (if isFinite (calmarRatio pd bpy) then calmarRatio pd bpy else Fin 0))
   \<and> (downsideReturns pd = [] \<longrightarrow>
        sortinoRatio pd rf bpy = Fin 0
        \<and> sortino (calculateAdvancedRatios pd rf bpy) = Fin 0
        \<and> (\<forall>b. 0 \<le> b \<longrightarrow> downsideDeviation pd (Fin b) = Fin 0))
   \<and> (maxDrawdown pd = Fin 0 \<longrightarrow>
        calmarRatio pd bpy = Fin 0 \<and> calmar (calculateAdvancedRatios pd rf bpy) = Fin 0)"
proof -
  have fin: "isFinite (sortino (calculateAdvancedRatios pd rf bpy))"
            "isFinite (calmar (calculateAdvancedRatios pd rf bpy))"
    by (simp_all add: calculateAdvancedRatios_def isFinite_def)
  have coerce: "2 \<le> length pd \<Longrightarrow>
        sortino (calculateAdvancedRatios pd rf bpy)
          = (if isFinite (sortinoRatio pd rf bpy) then sortinoRatio pd rf bpy else Fin 0)
        \<and> calmar (calculateAdvancedRatios pd rf bpy)
          = (if isFinite (calmarRatio pd bpy) then calmarRatio pd bpy else Fin 0)"
    by (simp add: calculateAdvancedRatios_def)
  have s0: "sortinoRatio pd rf bpy = Fin 0" if "downsideReturns pd = []"
    using that by (simp add: sortinoRatio_def downsideDeviation_no_downside jmul_zero_sqrt)
  have s1: "sortino (calculateAdvancedRatios pd rf bpy) = Fin 0" if "downsideReturns pd = []"
    using s0[OF that] by (simp add: calculateAdvancedRatios_def isFinite_def)
  have d0: "downsideDeviation pd (Fin b) = Fin 0" if "downsideReturns pd = []" "0 \<le> b" for b
    using that by (simp add: downsideDeviation_no_downside)
  have c0: "calmarRatio pd bpy = Fin 0" if "maxDrawdown pd = Fin 0"
    using that by (simp add: calmarRatio_def jgt_def)
  have c1: "calmar (calculateAdvancedRatios pd rf bpy) = Fin 0" if "maxDrawdown pd = Fin 0"
    using c0[OF that] by (simp add: calculateAdvancedRatios_def isFinite_def)
  show ?thesis using fin coerce s0 s1 d0 c0 c1 by blast
qed

theorem calculateAdvancedRatios_degenerate_witness:
  "2 \<le> length flatCurve \<and> downsideReturns flatCurve = [] \<and> maxDrawdown flatCurve = Fin 0
   \<and> (0::real) \<le> 252
   \<and> downsideDeviation flatCurve (Fin 252) = Fin 0
   \<and> sortino (calculateAdvancedRatios flatCurve (Fin (2 / 100)) (Fin 252)) = Fin 0
   \<and> calmar (calculateAdvancedRatios flatCurve (Fin (2 / 100)) (Fin 252)) = Fin 0"
proof -
  have h: "2 \<le> length flatCurve" "downsideReturns flatCurve = []" "maxDrawdown flatCurve = Fin 0"
    by (simp_all add: flatCurve_def downsideReturns_def dailyReturns_def maxDrawdown_def
          Math_max_def jgt_def jsub_def jor_def truthy_def)
  show ?thesis
    using h calculateAdvancedRatios_degenerate [of flatCurve "Fin (2 / 100)" "Fin 252"] by simp
qed

section \<open>Equity curve: drawdown\<close>

lemma jadd_Fin_iff: "jadd a b = Fin v \<longleftrightarrow> (\<exists>x y. a = Fin x \<and> b = Fin y \<and> v = x + y)"
  by (cases a; cases b) auto

lemma jadd_zero: "jadd a (Fin 0) = a"
  by (cases a) simp_all

lemma curveStep_points:
  "points (curveStep cap spy pm cs d) =
     points cs @ [\<lparr>date = d, strategy = portfolioValue (curveStep cap spy pm cs d),
                   sp500 = spyValue (curveStep cap spy pm cs d),
                   drawdown = Some (jdiv (jsub (peakValue (curveStep cap spy pm cs d))
                                               (portfolioValue (curveStep cap spy pm cs d)))
                                         (peakValue (curveStep cap spy pm cs d)))\<rparr>]"
  by (simp add: curveStep_def Let_def)

lemma curveStep_value:
  "portfolioValue (curveStep cap spy pm cs d) = jadd (portfolioValue cs) (pnlOn pm d)"
  "peakValue (curveStep cap spy pm cs d)
     = (if jgt (portfolioValue (curveStep cap spy pm cs d)) (peakValue cs)
        then portfolioValue (curveStep cap spy pm cs d) else peakValue cs)"
  by (simp_all add: curveStep_def Let_def)

lemma foldl_curveStep_points:
  "\<exists>new. points (foldl (curveStep cap spy pm) cs ds) = points cs @ new \<and> map date new = ds
         \<and> (\<forall>k<length ds. strategy (new ! k)
               = jadd (if k = 0 then portfolioValue cs else strategy (new ! (k - 1)))
                      (pnlOn pm (ds ! k)))"
proof (induction ds arbitrary: cs)
  case Nil
  then show ?case by simp
next
  case (Cons d ds)
  define cs1 where "cs1 = curveStep cap spy pm cs d"
  obtain new where n: "points (foldl (curveStep cap spy pm) cs1 ds) = points cs1 @ new"
      "map date new = ds"
      "\<forall>k<length ds. strategy (new ! k)
               = jadd (if k = 0 then portfolioValue cs1 else strategy (new ! (k - 1)))
                      (pnlOn pm (ds ! k))"
    using Cons.IH by blast
  define p where "p = \<lparr>date = d, strategy = portfolioValue cs1, sp500 = spyValue cs1,
      drawdown = Some (jdiv (jsub (peakValue cs1) (portfolioValue cs1)) (peakValue cs1))\<rparr>"
  have p: "points cs1 = points cs @ [p]" "date p = d" "strategy p = portfolioValue cs1"
    unfolding cs1_def p_def by (rule curveStep_points, simp, simp)
  have pv: "portfolioValue cs1 = jadd (portfolioValue cs) (pnlOn pm d)"
    unfolding cs1_def by (rule curveStep_value(1))
  have v: "strategy ((p # new) ! k)
               = jadd (if k = 0 then portfolioValue cs else strategy ((p # new) ! (k - 1)))
                      (pnlOn pm ((d # ds) ! k))" if "k < length (d # ds)" for k
  proof (cases k)
    case 0
    then show ?thesis by (simp add: p(3) pv)
  next
    case (Suc j)
    then have j: "j < length ds" using that by simp
    have a: "strategy (new ! j)
        = jadd (if j = 0 then portfolioValue cs1 else strategy (new ! (j - 1))) (pnlOn pm (ds ! j))"
      using n(3) j by blast
    have b: "(if j = 0 then portfolioValue cs1 else strategy (new ! (j - 1)))
        = strategy ((p # new) ! j)"
      by (cases j) (simp_all add: p(3))
    show ?thesis unfolding Suc using a b by simp
  qed
  have "foldl (curveStep cap spy pm) cs (d # ds) = foldl (curveStep cap spy pm) cs1 ds"
    by (simp add: cs1_def)
  then have "points (foldl (curveStep cap spy pm) cs (d # ds)) = points cs @ (p # new)"
    by (simp only: n(1) p(1) append_assoc append_Cons append_Nil)
  moreover have "map date (p # new) = d # ds" by (simp add: n(2) p(2))
  moreover have "\<forall>k<length (d # ds). strategy ((p # new) ! k)
               = jadd (if k = 0 then portfolioValue cs else strategy ((p # new) ! (k - 1)))
                      (pnlOn pm ((d # ds) ! k))"
    using v by (intro allI impI)
  ultimately show ?case by (intro exI[of _ "p # new"] conjI)
qed

lemma buildCurve_points:
  "map date (points (buildCurve cap spy pm)) = sortedDates pm"
  "k < length (sortedDates pm) \<Longrightarrow>
     strategy (points (buildCurve cap spy pm) ! k)
       = jadd (if k = 0 then cap else strategy (points (buildCurve cap spy pm) ! (k - 1)))
              (pnlOn pm (sortedDates pm ! k))"
proof -
  let ?start = "\<lparr>portfolioValue = cap, peakValue = cap, spyValue = cap, points = []\<rparr>"
  obtain new where n: "points (foldl (curveStep cap spy pm) ?start (sortedDates pm)) = points ?start @ new"
      "map date new = sortedDates pm"
      "\<forall>k<length (sortedDates pm). strategy (new ! k)
               = jadd (if k = 0 then portfolioValue ?start else strategy (new ! (k - 1)))
                      (pnlOn pm (sortedDates pm ! k))"
    using foldl_curveStep_points[of cap spy pm ?start "sortedDates pm"] by blast
  have e: "points (buildCurve cap spy pm) = new" using n(1) by (simp add: buildCurve_def)
  show "map date (points (buildCurve cap spy pm)) = sortedDates pm" by (simp only: e n(2))
  show "strategy (points (buildCurve cap spy pm) ! k)
       = jadd (if k = 0 then cap else strategy (points (buildCurve cap spy pm) ! (k - 1)))
              (pnlOn pm (sortedDates pm ! k))" if "k < length (sortedDates pm)"
    using n(3) that unfolding e by simp
qed

lemma buildCurve_empty_iff: "points (buildCurve cap spy pm) = [] \<longleftrightarrow> pm = []"
proof -
  have "points (buildCurve cap spy pm) = [] \<longleftrightarrow> map date (points (buildCurve cap spy pm)) = []"
    by simp
  also have "\<dots> \<longleftrightarrow> sortedDates pm = []" by (simp only: buildCurve_points(1))
  also have "\<dots> \<longleftrightarrow> pm = []"
    by (metis sortedDates_def length_sort length_map length_0_conv)
  finally show ?thesis .
qed

lemma curveStep_drawdown:
  assumes pv: "portfolioValue (curveStep cap spy pm cs d) = Fin v"
    and pk: "peakValue cs = Fin pk" and pos: "0 < pk"
  shows "peakValue (curveStep cap spy pm cs d) = Fin (max pk v)"
    and "jdiv (jsub (peakValue (curveStep cap spy pm cs d)) (portfolioValue (curveStep cap spy pm cs d)))
              (peakValue (curveStep cap spy pm cs d)) = Fin ((max pk v - v) / max pk v)"
proof -
  show a: "peakValue (curveStep cap spy pm cs d) = Fin (max pk v)"
    using pv pk by (simp add: curveStep_value(2) jgt_def max_def)
  have "max pk v \<noteq> 0" using pos by (simp add: max_def)
  then show "jdiv (jsub (peakValue (curveStep cap spy pm cs d)) (portfolioValue (curveStep cap spy pm cs d)))
              (peakValue (curveStep cap spy pm cs d)) = Fin ((max pk v - v) / max pk v)"
    by (simp add: a pv jsub_def)
qed

lemma drawdown_range:
  fixes pk v :: real
  assumes "0 < pk"
  shows "0 \<le> (max pk v - v) / max pk v"
    and "(max pk v - v) / max pk v \<le> 1 \<longleftrightarrow> 0 \<le> v"
    and "(max pk v - v) / max pk v = 0 \<longleftrightarrow> pk \<le> v"
proof -
  have m: "0 < max pk v" using assms by (simp add: max_def)
  have "0 \<le> max pk v - v" by simp
  then show "0 \<le> (max pk v - v) / max pk v" using m by simp
  have "(max pk v - v) / max pk v \<le> 1 \<longleftrightarrow> max pk v - v \<le> max pk v"
    using m by (simp add: divide_le_eq)
  then show "(max pk v - v) / max pk v \<le> 1 \<longleftrightarrow> 0 \<le> v" by simp
  have "(max pk v - v) / max pk v = 0 \<longleftrightarrow> max pk v - v = 0" using m by simp
  then show "(max pk v - v) / max pk v = 0 \<longleftrightarrow> pk \<le> v" by (simp add: max_def)
qed

lemma curveInv_step:
  assumes c0: "0 < c0" and inv: "curveInv c0 cs"
  shows "curveInv c0 (curveStep cap spy pm cs d)"
proof -
  let ?cs = "curveStep cap spy pm cs d"
  have step: "\<exists>pk. peakValue ?cs = Fin pk \<and> c0 \<le> pk \<and> v \<le> pk
                 \<and> (\<exists>dd. jdiv (jsub (peakValue ?cs) (portfolioValue ?cs)) (peakValue ?cs) = Fin dd
                        \<and> 0 \<le> dd \<and> (dd \<le> 1 \<longleftrightarrow> 0 \<le> v))"
    if v: "portfolioValue ?cs = Fin v" for v
  proof -
    obtain x where "portfolioValue cs = Fin x"
      using v unfolding curveStep_value(1) jadd_Fin_iff by blast
    then obtain pk where pk: "peakValue cs = Fin pk" "c0 \<le> pk"
      using inv unfolding curveInv_def by blast
    have pos: "0 < pk" using pk c0 by simp
    note dd = curveStep_drawdown[OF v pk(1) pos]
    show ?thesis
      using dd drawdown_range(1,2)[OF pos, of v] pk(2) by (intro exI[of _ "max pk v"]) auto
  qed
  have old: "\<forall>p \<in> set (points cs). \<forall>v. strategy p = Fin v \<longrightarrow>
            (\<exists>dd. drawdown p = Some dd \<and> jle (Fin 0) dd
                  \<and> (0 \<le> v \<longrightarrow> jle dd (Fin 1)) \<and> (v < 0 \<longrightarrow> jle (Fin 1) dd))"
    using inv unfolding curveInv_def by blast
  show ?thesis
    unfolding curveInv_def
  proof (intro conjI allI impI ballI)
    fix v assume "portfolioValue ?cs = Fin v"
    from step[OF this] show "\<exists>pk. peakValue ?cs = Fin pk \<and> c0 \<le> pk \<and> v \<le> pk" by blast
  next
    fix p v assume p: "p \<in> set (points ?cs)" and s: "strategy p = Fin v"
    show "\<exists>dd. drawdown p = Some dd \<and> jle (Fin 0) dd
                  \<and> (0 \<le> v \<longrightarrow> jle dd (Fin 1)) \<and> (v < 0 \<longrightarrow> jle (Fin 1) dd)"
    proof (cases "p \<in> set (points cs)")
      case True
      then show ?thesis using old s by blast
    next
      case False
      then have e: "p = \<lparr>date = d, strategy = portfolioValue ?cs, sp500 = spyValue ?cs,
          drawdown = Some (jdiv (jsub (peakValue ?cs) (portfolioValue ?cs)) (peakValue ?cs))\<rparr>"
        using p by (simp add: curveStep_points)
      then have "portfolioValue ?cs = Fin v" using s
        by (metis PerformanceDataPoint.select_convs(2))
      from step[OF this] obtain x where x:
          "jdiv (jsub (peakValue ?cs) (portfolioValue ?cs)) (peakValue ?cs) = Fin x"
          "0 \<le> x" "x \<le> 1 \<longleftrightarrow> 0 \<le> v"
        by blast
      have "jle (Fin 0) (Fin x)" "0 \<le> v \<longrightarrow> jle (Fin x) (Fin 1)" "v < 0 \<longrightarrow> jle (Fin 1) (Fin x)"
        using x(2,3) by (auto simp: jle_def)
      then show ?thesis unfolding e x(1) by simp
    qed
  qed
qed

lemma curveInv_foldl:
  assumes "0 < c0" "curveInv c0 cs"
  shows "curveInv c0 (foldl (curveStep cap spy pm) cs ds)"
  using assms(2) by (induction ds arbitrary: cs) (simp_all add: curveInv_step[OF assms(1)])

lemma curveInv_buildCurve:
  assumes "0 < c0"
  shows "curveInv c0 (buildCurve (Fin c0) spy pm)"
  unfolding buildCurve_def
  by (rule curveInv_foldl[OF assms]) (simp add: curveInv_def)

lemma first_point:
  assumes c0: "0 < c0" and ne: "points (buildCurve (Fin c0) spy pm) \<noteq> []"
    and v: "strategy (hd (points (buildCurve (Fin c0) spy pm))) = Fin v"
  shows "drawdown (hd (points (buildCurve (Fin c0) spy pm)))
           = Some (Fin ((max c0 v - v) / max c0 v))"
proof -
  let ?start = "\<lparr>portfolioValue = Fin c0, peakValue = Fin c0, spyValue = Fin c0, points = []\<rparr>"
  have "sortedDates pm \<noteq> []"
    using ne buildCurve_points(1)[of "Fin c0" spy pm] by auto
  then obtain d ds where ds: "sortedDates pm = d # ds" by (cases "sortedDates pm") auto
  let ?cs = "curveStep (Fin c0) spy pm ?start d"
  obtain new where n: "points (foldl (curveStep (Fin c0) spy pm) ?cs ds) = points ?cs @ new"
    using foldl_curveStep_points[of "Fin c0" spy pm ?cs ds] by blast
  have b: "points (buildCurve (Fin c0) spy pm) = points ?cs @ new"
    using n by (simp add: buildCurve_def ds)
  have h: "hd (points (buildCurve (Fin c0) spy pm))
      = \<lparr>date = d, strategy = portfolioValue ?cs, sp500 = spyValue ?cs,
          drawdown = Some (jdiv (jsub (peakValue ?cs) (portfolioValue ?cs)) (peakValue ?cs))\<rparr>"
    unfolding b by (simp add: curveStep_points)
  have pv: "portfolioValue ?cs = Fin v" using v unfolding h by simp
  have "peakValue ?start = Fin c0" by simp
  from curveStep_drawdown(2)[OF pv this c0] show ?thesis unfolding h by simp
qed

lemma performanceData_assemble: "performanceData (assemble env cs ts) = points cs"
  "allTrades (assemble env cs ts) = ts"
  by (simp_all add: assemble_def Let_def)

lemma run_completed:
  assumes "handleRunBacktest env = Completed res"
  shows "\<exists>dat. selectedStrategyIds env \<noteq> [] \<and> data (dataResult env) = Some dat
           \<and> success (dataResult env) \<and> dat \<noteq> []
           \<and> performanceData res
               = points (buildCurve (initialCapital env) (map_of dat ''SPY'')
                           (dailyPnl (simulate env dat (selectedStrategies env))))
           \<and> allTrades res = simTrades (simulate env dat (selectedStrategies env))
           \<and> performanceData res \<noteq> []"
  using assms
  by (auto simp: handleRunBacktest_def Let_def performanceData_assemble
           split: if_splits option.splits)

lemma resultOf_Some: "resultOf out = Some res \<longleftrightarrow> out = Completed res"
  by (cases out) (simp_all add: resultOf_def)

lemmas run_eval =
  handleRunBacktest_def dataResult_def exampleEnv_def exampleStrategy_def symbolsToFetch_def
  allSymbols_def selectedStrategies_def newSet_def simulate_def simulateStrategy_def
  availableSymbols_def strategySymbols_def flatBars_def flatBar_def barLoop.simps simulateBar_def
  Let_def dateOf_def touchDate_def buildCurve_def sortedDates_def curveStep_def pnlOn_def
  resultOf_def errorOf_def curveOf_def tradesOf_def assemble_def pickSymbol_def openTrade_def
  resolveExit_def jsub_def jle_def jge_def jgt_def slice_def addPnl_def benchmarkValue_def
  dateToSpyPriceMap_def spyInitialPrice_def truthy_def jor_def

lemma example_run_loss:
  "curveOf (handleRunBacktest (exampleEnv (Fin 100000) (Fin (1 / 2)) 0 [''XYZ'']))
     = [\<lparr>date = ''2024-01-08'', strategy = Fin (199999 / 2), sp500 = Fin 100000,
         drawdown = Some (Fin (1 / 200000))\<rparr>]"
  by (simp add: run_eval)

text \<open>
  Claim C3, as amended. In a run with a positive initial capital, every point of the
  performance sequence whose portfolio value is finite has a drawdown that is at least
  \<open>0\<close>; the drawdown is at most \<open>1\<close> when the portfolio value at that point is not
  negative, and at least \<open>1\<close> when it is negative. The drawdown of the first point is \<open>0\<close>
  exactly when its portfolio value is at least the initial capital, that is when the first
  date closes without a net loss.
\<close>

theorem drawdown_bounds:
  assumes "handleRunBacktest env = Completed res"
    and "initialCapital env = Fin c0" and "0 < c0"
    and "p \<in> set (performanceData res)" and "strategy p = Fin v"
  shows "\<exists>dd. drawdown p = Some dd \<and> jle (Fin 0) dd
            \<and> (0 \<le> v \<longrightarrow> jle dd (Fin 1)) \<and> (v < 0 \<longrightarrow> jle (Fin 1) dd)
            \<and> (p = hd (performanceData res) \<longrightarrow> (dd = Fin 0 \<longleftrightarrow> c0 \<le> v))"
proof -
  obtain dat where r:
      "performanceData res
         = points (buildCurve (Fin c0) (map_of dat ''SPY'')
                     (dailyPnl (simulate env dat (selectedStrategies env))))"
      "performanceData res \<noteq> []"
    using run_completed[OF assms(1)] assms(2) by auto
  let ?pm = "dailyPnl (simulate env dat (selectedStrategies env))"
  let ?spy = "map_of dat ''SPY''"
  have "curveInv c0 (buildCurve (Fin c0) ?spy ?pm)" by (rule curveInv_buildCurve[OF assms(3)])
  then obtain dd where d: "drawdown p = Some dd" "jle (Fin 0) dd"
      "0 \<le> v \<longrightarrow> jle dd (Fin 1)" "v < 0 \<longrightarrow> jle (Fin 1) dd"
    using assms(4,5) unfolding curveInv_def r(1) by blast
  have "dd = Fin 0 \<longleftrightarrow> c0 \<le> v" if "p = hd (performanceData res)"
  proof -
    have "strategy (hd (points (buildCurve (Fin c0) ?spy ?pm))) = Fin v"
      using that assms(5) r(1) by simp
    from first_point[OF assms(3) _ this] r have "drawdown p = Some (Fin ((max c0 v - v) / max c0 v))"
      using that by simp
    then have "dd = Fin ((max c0 v - v) / max c0 v)" using d(1) by simp
    then show ?thesis using drawdown_range(3)[OF assms(3), of v] by simp
  qed
  then show ?thesis using d by blast
qed

theorem drawdown_bounds_witness:
  "handleRunBacktest (exampleEnv (Fin 100000) (Fin (1 / 2)) 0 [''XYZ''])
     = Completed (the (resultOf (handleRunBacktest (exampleEnv (Fin 100000) (Fin (1 / 2)) 0 [''XYZ'']))))
   \<and> initialCapital (exampleEnv (Fin 100000) (Fin (1 / 2)) 0 [''XYZ'']) = Fin 100000
   \<and> (0::real) < 100000
   \<and> hd (curveOf (handleRunBacktest (exampleEnv (Fin 100000) (Fin (1 / 2)) 0 [''XYZ''])))
        \<in> set (curveOf (handleRunBacktest (exampleEnv (Fin 100000) (Fin (1 / 2)) 0 [''XYZ''])))
   \<and> strategy (hd (curveOf (handleRunBacktest (exampleEnv (Fin 100000) (Fin (1 / 2)) 0 [''XYZ'']))))
        = Fin (199999 / 2)
   \<and> (0::real) \<le> 199999 / 2
   \<and> (\<exists>dd. drawdown (hd (curveOf (handleRunBacktest (exampleEnv (Fin 100000) (Fin (1 / 2)) 0 [''XYZ'']))))
            = Some dd \<and> jle (Fin 0) dd \<and> jle dd (Fin 1) \<and> dd \<noteq> Fin 0)"
proof -
  let ?env = "exampleEnv (Fin 100000) (Fin (1 / 2)) 0 [''XYZ'']"
  let ?res = "the (resultOf (handleRunBacktest ?env))"
  have ne: "curveOf (handleRunBacktest ?env) \<noteq> []" by (simp add: example_run_loss)
  then obtain r where r: "handleRunBacktest ?env = Completed r"
    by (cases "handleRunBacktest ?env") (simp_all add: curveOf_def)
  have h1: "handleRunBacktest ?env = Completed ?res" by (simp add: r resultOf_def)
  have c: "curveOf (handleRunBacktest ?env) = performanceData ?res"
    by (simp add: r resultOf_def curveOf_def)
  have h2: "initialCapital ?env = Fin 100000" by (simp add: exampleEnv_def)
  have h3: "(0::real) < 100000" by simp
  have h4: "hd (performanceData ?res) \<in> set (performanceData ?res)"
    using ne unfolding c by simp
  have h5: "strategy (hd (performanceData ?res)) = Fin (199999 / 2)"
    unfolding c[symmetric] by (simp add: example_run_loss)
  show ?thesis
    using drawdown_bounds [OF h1 h2 h3 h4 h5] h1 h2 h4 h5 unfolding c[symmetric] by auto
qed

text \<open>
  Claim C3 as stated fails. On six flat bars with one trade on the first curve date and a
  commission of \<open>0.5\<close>, the first point has drawdown \<open>1/200000\<close>, not \<open>0\<close>. With an
  initial capital of \<open>100\<close> and a commission of \<open>200\<close> the portfolio value of the first
  point is negative and its drawdown is \<open>2\<close>, above \<open>1\<close>.
\<close>

theorem drawdown_bounds_counterexample:
  "map drawdown (curveOf (handleRunBacktest (exampleEnv (Fin 100000) (Fin (1 / 2)) 0 [''XYZ''])))
     = [Some (Fin (1 / 200000))]
   \<and> map drawdown (curveOf (handleRunBacktest (exampleEnv (Fin 100) (Fin 200) 0 [''XYZ''])))
     = [Some (Fin 2)]
   \<and> map strategy (curveOf (handleRunBacktest (exampleEnv (Fin 100) (Fin 200) 0 [''XYZ''])))
     = [Fin (- 100)]"
  by (simp add: run_eval)

section \<open>Equity curve: the unguarded division\<close>





section \<open>Simulation: the dates of the daily P&L\<close>

lemma keys_touchDate: "fst ` set (touchDate d m) = insert d (fst ` set m)"
  by (simp add: touchDate_def dom_update)

lemma keys_addPnl: "fst ` set (addPnl d x m) = insert d (fst ` set m)"
  by (simp add: addPnl_def dom_update)

lemma simulateBar_keys:
  "fst ` set (dailyPnl (simulateBar env strat avail dat tb i st))
     = insert (dateOf (tb ! i)) (fst ` set (dailyPnl st))"
  by (simp add: simulateBar_def Let_def keys_touchDate keys_addPnl split: option.splits)

lemma simulateBar_distinct:
  assumes "distinct (map fst (dailyPnl st))"
  shows "distinct (map fst (dailyPnl (simulateBar env strat avail dat tb i st)))"
  using assms
  by (simp add: simulateBar_def Let_def touchDate_def addPnl_def distinct_update
           split: option.splits)

lemma barLoop_keys:
  "fst ` set (dailyPnl (barLoop env strat avail dat tb i st))
     = fst ` set (dailyPnl st) \<union> dateOf ` set (drop i tb)"
proof (induction env strat avail dat tb i st rule: barLoop.induct)
  case (1 env strat avail dat tb i st)
  show ?case
  proof (cases "i < length tb")
    case True
    have "drop i tb = tb ! i # drop (Suc i) tb" using True by (simp add: Cons_nth_drop_Suc)
    then show ?thesis
      using "1.IH"[OF True] True by (subst barLoop.simps) (simp add: simulateBar_keys)
  next
    case False
    then show ?thesis by (subst barLoop.simps) simp
  qed
qed

lemma barLoop_distinct:
  assumes "distinct (map fst (dailyPnl st))"
  shows "distinct (map fst (dailyPnl (barLoop env strat avail dat tb i st)))"
  using assms
proof (induction env strat avail dat tb i st rule: barLoop.induct)
  case (1 env strat avail dat tb i st)
  show ?case
  proof (cases "i < length tb")
    case True
    then show ?thesis
      using "1.IH"[OF True simulateBar_distinct[OF "1.prems"]] by (subst barLoop.simps) simp
  next
    case False
    then show ?thesis using "1.prems" by (subst barLoop.simps) simp
  qed
qed

lemma simulateStrategy_keys:
  "fst ` set (dailyPnl (simulateStrategy env dat st strat))
     = fst ` set (dailyPnl st) \<union> timelineDates dat strat"
  by (simp add: simulateStrategy_def timelineDates_def barLoop_keys
           split: list.splits option.splits)

lemma simulateStrategy_distinct:
  assumes "distinct (map fst (dailyPnl st))"
  shows "distinct (map fst (dailyPnl (simulateStrategy env dat st strat)))"
  using assms
  by (simp add: simulateStrategy_def barLoop_distinct split: list.splits option.splits)

lemma foldl_simulateStrategy_keys:
  "fst ` set (dailyPnl (foldl (simulateStrategy env dat) st strats))
     = fst ` set (dailyPnl st) \<union> (\<Union>s \<in> set strats. timelineDates dat s)"
  by (induction strats arbitrary: st) (auto simp: simulateStrategy_keys)

lemma foldl_simulateStrategy_distinct:
  assumes "distinct (map fst (dailyPnl st))"
  shows "distinct (map fst (dailyPnl (foldl (simulateStrategy env dat) st strats)))"
  using assms by (induction strats arbitrary: st) (simp_all add: simulateStrategy_distinct)

lemma simulate_keys:
  "fst ` set (dailyPnl (simulate env dat strats)) = (\<Union>s \<in> set strats. timelineDates dat s)"
  by (simp add: simulate_def foldl_simulateStrategy_keys)

lemma simulate_distinct: "distinct (map fst (dailyPnl (simulate env dat strats)))"
  unfolding simulate_def by (rule foldl_simulateStrategy_distinct) simp

lemma availableSymbols_bars:
  assumes "smb \<in> set (availableSymbols dat s)"
  shows "\<exists>bars. map_of dat smb = Some bars \<and> 5 < length bars"
  using assms by (auto simp: availableSymbols_def split: option.splits)

lemma timelineDates_empty_iff: "timelineDates dat s = {} \<longleftrightarrow> availableSymbols dat s = []"
proof (cases "availableSymbols dat s")
  case Nil
  then show ?thesis by (simp add: timelineDates_def)
next
  case (Cons first others)
  then have "first \<in> set (availableSymbols dat s)" by simp
  then obtain bars where b: "map_of dat first = Some bars" "5 < length bars"
    using availableSymbols_bars by blast
  have "drop 5 bars \<noteq> []" using b(2) by simp
  then show ?thesis using Cons b(1) by (simp add: timelineDates_def)
qed

lemma dailyPnl_empty_iff:
  "dailyPnl (simulate env dat strats) = [] \<longleftrightarrow> (\<forall>s \<in> set strats. availableSymbols dat s = [])"
proof -
  have "dailyPnl (simulate env dat strats) = []
          \<longleftrightarrow> fst ` set (dailyPnl (simulate env dat strats)) = {}"
    by simp
  also have "\<dots> \<longleftrightarrow> (\<forall>s \<in> set strats. timelineDates dat s = {})"
    by (simp only: simulate_keys) blast
  finally show ?thesis by (simp only: timelineDates_empty_iff)
qed

lemma simulate_skipped:
  assumes "\<forall>s \<in> set strats. availableSymbols dat s = []"
  shows "foldl (simulateStrategy env dat) st strats = st"
  using assms by (induction strats arbitrary: st) (simp_all add: simulateStrategy_def)

section \<open>Simulation: runs without trades\<close>

lemma update_values: "x \<in> set (AList.update k v m) \<Longrightarrow> x \<in> set m \<or> x = (k, v)"
  by (induction m) (auto split: if_splits)

lemma touchDate_zero:
  assumes "\<forall>x \<in> set m. snd x = Fin 0"
  shows "\<forall>x \<in> set (touchDate d m). snd x = Fin 0"
proof -
  have w: "(case map_of m d of None \<Rightarrow> Fin 0 | Some x \<Rightarrow> jor x (Fin 0)) = Fin 0"
  proof (cases "map_of m d")
    case None
    then show ?thesis by simp
  next
    case (Some y)
    then have "(d, y) \<in> set m" by (rule map_of_SomeD)
    then have "y = Fin 0" using assms by auto
    then show ?thesis using Some by (simp add: jor_def truthy_def)
  qed
  show ?thesis
    unfolding touchDate_def w
  proof
    fix x assume "x \<in> set (AList.update d (Fin 0) m)"
    then have "x \<in> set m \<or> x = (d, Fin 0)" by (rule update_values)
    then show "snd x = Fin 0" using assms by auto
  qed
qed

lemma simulateBar_no_trade:
  assumes "simTrades (simulateBar env strat avail dat tb i st) = []"
  shows "simTrades st = []
         \<and> dailyPnl (simulateBar env strat avail dat tb i st) = touchDate (dateOf (tb ! i)) (dailyPnl st)"
  using assms by (simp add: simulateBar_def Let_def split: option.splits if_splits)

lemma simulateBar_zero:
  assumes "simTrades st = [] \<longrightarrow> (\<forall>x \<in> set (dailyPnl st). snd x = Fin 0)"
  shows "simTrades (simulateBar env strat avail dat tb i st) = []
           \<longrightarrow> (\<forall>x \<in> set (dailyPnl (simulateBar env strat avail dat tb i st)). snd x = Fin 0)"
proof
  assume "simTrades (simulateBar env strat avail dat tb i st) = []"
  from simulateBar_no_trade[OF this] assms
  show "\<forall>x \<in> set (dailyPnl (simulateBar env strat avail dat tb i st)). snd x = Fin 0"
    by (simp add: touchDate_zero)
qed

lemma barLoop_zero:
  assumes "simTrades st = [] \<longrightarrow> (\<forall>x \<in> set (dailyPnl st). snd x = Fin 0)"
  shows "simTrades (barLoop env strat avail dat tb i st) = []
           \<longrightarrow> (\<forall>x \<in> set (dailyPnl (barLoop env strat avail dat tb i st)). snd x = Fin 0)"
  using assms
proof (induction env strat avail dat tb i st rule: barLoop.induct)
  case (1 env strat avail dat tb i st)
  show ?case
  proof (cases "i < length tb")
    case True
    then show ?thesis
      using "1.IH"[OF True simulateBar_zero[OF "1.prems"]] by (subst (1 2) barLoop.simps) simp
  next
    case False
    then show ?thesis using "1.prems" by (subst (1 2) barLoop.simps) simp
  qed
qed

lemma simulateStrategy_zero:
  assumes "simTrades st = [] \<longrightarrow> (\<forall>x \<in> set (dailyPnl st). snd x = Fin 0)"
  shows "simTrades (simulateStrategy env dat st strat) = []
           \<longrightarrow> (\<forall>x \<in> set (dailyPnl (simulateStrategy env dat st strat)). snd x = Fin 0)"
  using assms barLoop_zero[OF assms]
  by (simp add: simulateStrategy_def split: list.splits option.splits)

lemma foldl_simulateStrategy_zero:
  assumes "simTrades st = [] \<longrightarrow> (\<forall>x \<in> set (dailyPnl st). snd x = Fin 0)"
  shows "simTrades (foldl (simulateStrategy env dat) st strats) = []
           \<longrightarrow> (\<forall>x \<in> set (dailyPnl (foldl (simulateStrategy env dat) st strats)). snd x = Fin 0)"
  using assms
proof (induction strats arbitrary: st)
  case Nil
  then show ?case by simp
next
  case (Cons s strats)
  show ?case using Cons.IH[OF simulateStrategy_zero[OF Cons.prems]] by simp
qed

lemma simulate_zero:
  assumes "simTrades (simulate env dat strats) = []"
  shows "\<forall>x \<in> set (dailyPnl (simulate env dat strats)). snd x = Fin 0"
  using assms foldl_simulateStrategy_zero[of "\<lparr>simTrades = [], dailyPnl = [], drawn = 0\<rparr>" env dat strats]
  by (simp add: simulate_def)

lemma pnlOn_zero:
  assumes "\<forall>x \<in> set pm. snd x = Fin 0" and "d \<in> fst ` set pm"
  shows "pnlOn pm d = Fin 0"
proof -
  obtain y where y: "map_of pm d = Some y"
    using assms(2) by (cases "map_of pm d") (simp_all add: map_of_eq_None_iff)
  then have "(d, y) \<in> set pm" by (rule map_of_SomeD)
  then have "y = Fin 0" using assms(1) by auto
  then show ?thesis by (simp add: pnlOn_def y)
qed

lemma sortedDates_set: "set (sortedDates pm) = fst ` set pm"
  by (simp add: sortedDates_def)

lemma buildCurve_length: "length (points (buildCurve cap spy pm)) = length (sortedDates pm)"
  using buildCurve_points(1)[of cap spy pm] by (metis length_map)

lemma flat_curve:
  assumes z: "\<forall>x \<in> set pm. snd x = Fin 0" and p: "p \<in> set (points (buildCurve cap spy pm))"
  shows "strategy p = cap"
proof -
  have k: "strategy (points (buildCurve cap spy pm) ! k) = cap" if "k < length (sortedDates pm)" for k
    using that
  proof (induction k)
    case 0
    have "sortedDates pm ! 0 \<in> fst ` set pm" using 0 sortedDates_set nth_mem by blast
    then show ?case using buildCurve_points(2)[OF 0] pnlOn_zero[OF z] by (simp add: jadd_zero)
  next
    case (Suc k)
    have "sortedDates pm ! Suc k \<in> fst ` set pm" using Suc.prems sortedDates_set nth_mem by blast
    moreover have "strategy (points (buildCurve cap spy pm) ! k) = cap" using Suc by simp
    ultimately show ?case
      using buildCurve_points(2)[OF Suc.prems] pnlOn_zero[OF z] by (simp add: jadd_zero)
  qed
  obtain j where "j < length (points (buildCurve cap spy pm))" "p = points (buildCurve cap spy pm) ! j"
    using p by (metis in_set_conv_nth)
  then show ?thesis using k by (simp add: buildCurve_length)
qed

section \<open>The run: errors and results\<close>

lemma run_cases:
  "handleRunBacktest env =
     (if selectedStrategyIds env = [] then Failed InputError
      else case data (dataResult env) of
        None \<Rightarrow> Failed DataUnavailableError
      | Some dat \<Rightarrow>
          if \<not> success (dataResult env) \<or> dat = [] then Failed DataUnavailableError
          else if \<forall>s \<in> set (selectedStrategies env). availableSymbols dat s = []
          then Failed EmptyResultError
          else Completed (assemble env
                 (buildCurve (initialCapital env) (map_of dat ''SPY'')
                    (dailyPnl (simulate env dat (selectedStrategies env))))
                 (simTrades (simulate env dat (selectedStrategies env)))))"
  by (simp add: handleRunBacktest_def Let_def buildCurve_empty_iff dailyPnl_empty_iff
           split: option.splits)

text \<open>
  Claim C2, as amended. A run reports \<open>EmptyResultError\<close> exactly when a strategy is
  selected, the provider's answer is successful and not empty, and no selected strategy
  has an available symbol (a symbol with more than 5 bars): the simulation then produces no
  trade and no date, there is no performance curve and no result is assembled. It is
  reported apart from \<open>DataUnavailableError\<close>, which is reported exactly when a strategy is
  selected and the provider's answer is unsuccessful or empty.
\<close>

theorem empty_result_error_iff:
  "(handleRunBacktest env = Failed EmptyResultError \<longleftrightarrow>
      selectedStrategyIds env \<noteq> [] \<and> success (dataResult env)
      \<and> (\<exists>dat. data (dataResult env) = Some dat \<and> dat \<noteq> []
             \<and> (\<forall>s \<in> set (selectedStrategies env). availableSymbols dat s = [])))
   \<and> (handleRunBacktest env = Failed DataUnavailableError \<longleftrightarrow>
        selectedStrategyIds env \<noteq> []
        \<and> (\<not> success (dataResult env) \<or> data (dataResult env) = None
             \<or> data (dataResult env) = Some []))
   \<and> (\<forall>dat. handleRunBacktest env = Failed EmptyResultError \<and> data (dataResult env) = Some dat
         \<longrightarrow> simTrades (simulate env dat (selectedStrategies env)) = []
             \<and> dailyPnl (simulate env dat (selectedStrategies env)) = [])"
proof -
  have a: "handleRunBacktest env = Failed EmptyResultError \<longleftrightarrow>
      selectedStrategyIds env \<noteq> [] \<and> success (dataResult env)
      \<and> (\<exists>dat. data (dataResult env) = Some dat \<and> dat \<noteq> []
             \<and> (\<forall>s \<in> set (selectedStrategies env). availableSymbols dat s = []))"
    by (cases "data (dataResult env)") (simp_all add: run_cases)
  have b: "handleRunBacktest env = Failed DataUnavailableError \<longleftrightarrow>
        selectedStrategyIds env \<noteq> []
        \<and> (\<not> success (dataResult env) \<or> data (dataResult env) = None
             \<or> data (dataResult env) = Some [])"
    by (cases "data (dataResult env)") (auto simp: run_cases)
  have c: "simTrades (simulate env dat (selectedStrategies env)) = []
             \<and> dailyPnl (simulate env dat (selectedStrategies env)) = []"
    if "handleRunBacktest env = Failed EmptyResultError \<and> data (dataResult env) = Some dat" for dat
  proof -
    have "\<forall>s \<in> set (selectedStrategies env). availableSymbols dat s = []"
      using that a by auto
    then show ?thesis by (simp add: simulate_def simulate_skipped)
  qed
  show ?thesis using a b c by blast
qed

theorem empty_result_error_iff_witness:
  "selectedStrategyIds (exampleEnv (Fin 100000) (Fin (1 / 2)) 0 []) \<noteq> []
   \<and> success (dataResult (exampleEnv (Fin 100000) (Fin (1 / 2)) 0 []))
   \<and> data (dataResult (exampleEnv (Fin 100000) (Fin (1 / 2)) 0 [])) = Some [(''SPY'', flatBars)]
   \<and> availableSymbols [(''SPY'', flatBars)] (exampleStrategy []) = []
   \<and> handleRunBacktest (exampleEnv (Fin 100000) (Fin (1 / 2)) 0 []) = Failed EmptyResultError
   \<and> simTrades (simulate (exampleEnv (Fin 100000) (Fin (1 / 2)) 0 []) [(''SPY'', flatBars)]
        (selectedStrategies (exampleEnv (Fin 100000) (Fin (1 / 2)) 0 []))) = []"
proof -
  let ?env = "exampleEnv (Fin 100000) (Fin (1 / 2)) 0 []"
  have h: "selectedStrategyIds ?env \<noteq> []" "success (dataResult ?env)"
      "data (dataResult ?env) = Some [(''SPY'', flatBars)]"
      "selectedStrategies ?env = [exampleStrategy []]"
      "availableSymbols [(''SPY'', flatBars)] (exampleStrategy []) = []"
    by (simp_all add: exampleEnv_def exampleStrategy_def dataResult_def symbolsToFetch_def
          allSymbols_def selectedStrategies_def newSet_def availableSymbols_def strategySymbols_def)
  have e: "handleRunBacktest ?env = Failed EmptyResultError"
    using empty_result_error_iff [of ?env] h by simp
  then show ?thesis using empty_result_error_iff [of ?env] h by simp
qed

text \<open>
  Claim C2 as stated fails: on six flat bars of one symbol with no random draw below the
  trade probability, the simulation produces zero trades, and the run still completes with
  a result whose curve has one point at the initial capital.
\<close>

theorem zero_trades_counterexample:
  "tradesOf (handleRunBacktest (exampleEnv (Fin 100000) (Fin (1 / 2)) (9 / 10) [''XYZ''])) = []
   \<and> errorOf (handleRunBacktest (exampleEnv (Fin 100000) (Fin (1 / 2)) (9 / 10) [''XYZ''])) = None
   \<and> map date (curveOf (handleRunBacktest (exampleEnv (Fin 100000) (Fin (1 / 2)) (9 / 10) [''XYZ''])))
       = [''2024-01-08'']
   \<and> map strategy (curveOf (handleRunBacktest (exampleEnv (Fin 100000) (Fin (1 / 2)) (9 / 10) [''XYZ''])))
       = [Fin 100000]"
  by (simp add: run_eval)

text \<open>
  Claim C8, as amended. When no symbol is resolvable for any selected strategy, a run never
  yields a result. It yields \<open>InputError\<close> only when no strategy is selected; otherwise the
  provider is asked first, and the run yields \<open>DataUnavailableError\<close> when the answer is
  unsuccessful or empty and \<open>EmptyResultError\<close> when it is not.
\<close>

theorem no_resolvable_symbol:
  assumes "\<forall>s \<in> set (selectedStrategies env). strategySymbols s = []"
  shows "resultOf (handleRunBacktest env) = None
         \<and> errorOf (handleRunBacktest env)
             = Some (if selectedStrategyIds env = [] then InputError
                     else if \<not> success (dataResult env) \<or> data (dataResult env) = None
                             \<or> data (dataResult env) = Some []
                     then DataUnavailableError else EmptyResultError)"
proof -
  have "\<forall>s \<in> set (selectedStrategies env). availableSymbols dat s = []" for dat
    using assms by (simp add: availableSymbols_def)
  then show ?thesis
    by (cases "data (dataResult env)") (simp_all add: run_cases resultOf_def errorOf_def)
qed

theorem no_resolvable_symbol_witness:
  "strategySymbols (exampleStrategy []) = []
   \<and> selectedStrategies (exampleEnv (Fin 100000) (Fin (1 / 2)) 0 []) = [exampleStrategy []]
   \<and> resultOf (handleRunBacktest (exampleEnv (Fin 100000) (Fin (1 / 2)) 0 [])) = None
   \<and> errorOf (handleRunBacktest (exampleEnv (Fin 100000) (Fin (1 / 2)) 0 [])) = Some EmptyResultError"
proof -
  let ?env = "exampleEnv (Fin 100000) (Fin (1 / 2)) 0 []"
  have h: "strategySymbols (exampleStrategy []) = []"
      "selectedStrategies ?env = [exampleStrategy []]"
      "selectedStrategyIds ?env \<noteq> []" "success (dataResult ?env)"
      "data (dataResult ?env) = Some [(''SPY'', flatBars)]"
    by (simp_all add: exampleEnv_def exampleStrategy_def dataResult_def symbolsToFetch_def
          allSymbols_def selectedStrategies_def newSet_def strategySymbols_def)
  have "\<forall>s \<in> set (selectedStrategies ?env). strategySymbols s = []" by (simp add: h)
  from no_resolvable_symbol [OF this] show ?thesis using h by simp
qed

text \<open>
  Claim C8 as stated fails: with one strategy selected that resolves to no symbol, the
  provider is asked for the benchmark \<open>SPY\<close> alone, and once it has answered the run ends
  with \<open>EmptyResultError\<close>, not with \<open>InputError\<close>.
\<close>

theorem no_resolvable_symbol_counterexample:
  "strategySymbols (exampleStrategy []) = []
   \<and> symbolsToFetch (exampleEnv (Fin 100000) (Fin (1 / 2)) 0 []) = [''SPY'']
   \<and> errorOf (handleRunBacktest (exampleEnv (Fin 100000) (Fin (1 / 2)) 0 [])) = Some EmptyResultError
   \<and> errorOf (handleRunBacktest (exampleEnv (Fin 100000) (Fin (1 / 2)) 0 [])) \<noteq> Some InputError"
  by (simp add: run_eval)

section \<open>The run: every timeline date is on the curve\<close>

lemma timeline_date_member:
  assumes "5 \<le> i" "i < length tb"
  shows "dateOf (tb ! i) \<in> dateOf ` set (drop 5 tb)"
proof -
  have "drop 5 tb ! (i - 5) = tb ! i" using assms by simp
  moreover have "i - 5 < length (drop 5 tb)" using assms by simp
  ultimately have "tb ! i \<in> set (drop 5 tb)" by (metis nth_mem)
  then show ?thesis by (rule imageI)
qed

text \<open>
  Claim C10. In a run that reaches the simulation (a strategy is selected and the provider
  answered), if a selected strategy has an available symbol, then the daily P&L object has
  an entry for the date of every timeline bar from index 5 on, and the performance curve has
  exactly one point per date of the daily P&L, in ascending order: the curve is not empty
  and the run completes. On a date whose P&L is \<open>0\<close> the portfolio value is that of the
  previous point (the initial capital for the first point); when the run produces zero
  trades every entry is \<open>0\<close> and every point is at the initial capital.
\<close>

theorem timeline_dates_on_curve:
  fixes env dat
  defines "st \<equiv> simulate env dat (selectedStrategies env)"
  assumes sel: "selectedStrategyIds env \<noteq> []"
    and dat: "data (dataResult env) = Some dat" and ok: "success (dataResult env)"
    and s: "s \<in> set (selectedStrategies env)" and av: "availableSymbols dat s = first # others"
  shows "\<exists>res tb. handleRunBacktest env = Completed res
           \<and> map_of dat first = Some tb \<and> 5 < length tb
           \<and> (\<forall>i. 5 \<le> i \<and> i < length tb \<longrightarrow>
                 dateOf (tb ! i) \<in> fst ` set (dailyPnl st)
                 \<and> dateOf (tb ! i) \<in> set (map date (performanceData res)))
           \<and> map date (performanceData res) = sortedDates (dailyPnl st)
           \<and> distinct (map date (performanceData res))
           \<and> sorted (map date (performanceData res))
           \<and> performanceData res \<noteq> []
           \<and> (\<forall>k<length (performanceData res).
                 pnlOn (dailyPnl st) (date (performanceData res ! k)) = Fin 0 \<longrightarrow>
                 strategy (performanceData res ! k)
                   = (if k = 0 then initialCapital env else strategy (performanceData res ! (k - 1))))
           \<and> (allTrades res = [] \<longrightarrow>
                 (\<forall>x \<in> set (dailyPnl st). snd x = Fin 0)
                 \<and> (\<forall>p \<in> set (performanceData res). strategy p = initialCapital env))"
proof -
  define cs where "cs = buildCurve (initialCapital env) (map_of dat ''SPY'') (dailyPnl st)"
  define res where "res = assemble env cs (simTrades st)"
  have "first \<in> set (availableSymbols dat s)" using av by simp
  then obtain tb where tb: "map_of dat first = Some tb" "5 < length tb"
    using availableSymbols_bars by blast
  have ne: "dat \<noteq> []" using tb(1) by auto
  have "availableSymbols dat s \<noteq> []" using av by simp
  then have "\<not> (\<forall>s \<in> set (selectedStrategies env). availableSymbols dat s = [])"
    using s by blast
  then have run: "handleRunBacktest env = Completed res"
    using sel dat ok ne by (simp add: run_cases res_def cs_def st_def)
  have pd: "performanceData res = points cs" and tr: "allTrades res = simTrades st"
    by (simp_all add: res_def performanceData_assemble)
  have dates: "map date (points cs) = sortedDates (dailyPnl st)"
    unfolding cs_def by (rule buildCurve_points(1))
  have keys: "fst ` set (dailyPnl st) = (\<Union>s \<in> set (selectedStrategies env). timelineDates dat s)"
    unfolding st_def by (rule simulate_keys)
  have tl: "timelineDates dat s = dateOf ` set (drop 5 tb)"
    by (simp add: timelineDates_def av tb(1))
  have a: "dateOf (tb ! i) \<in> fst ` set (dailyPnl st)
           \<and> dateOf (tb ! i) \<in> set (map date (points cs))" if "5 \<le> i \<and> i < length tb" for i
  proof -
    have "dateOf (tb ! i) \<in> timelineDates dat s"
      unfolding tl using that by (simp add: timeline_date_member)
    then have "dateOf (tb ! i) \<in> fst ` set (dailyPnl st)" using s unfolding keys by blast
    then show ?thesis by (simp only: dates sortedDates_set simp_thms)
  qed
  have dist: "distinct (map date (points cs))"
    unfolding dates sortedDates_def st_def by (simp add: simulate_distinct)
  have srt: "sorted (map date (points cs))"
    unfolding dates sortedDates_def by simp
  have nonempty: "points cs \<noteq> []"
    using a[of 5] tb(2) by auto
  have b: "strategy (points cs ! k)
             = (if k = 0 then initialCapital env else strategy (points cs ! (k - 1)))"
    if k: "k < length (points cs)" and z: "pnlOn (dailyPnl st) (date (points cs ! k)) = Fin 0" for k
  proof -
    have kl: "k < length (sortedDates (dailyPnl st))"
      using k dates by (metis length_map)
    have "date (points cs ! k) = sortedDates (dailyPnl st) ! k"
      using k dates by (metis nth_map)
    then have "pnlOn (dailyPnl st) (sortedDates (dailyPnl st) ! k) = Fin 0" using z by simp
    then show ?thesis
      using buildCurve_points(2)[OF kl, of "initialCapital env" "map_of dat ''SPY''"]
      by (simp add: cs_def jadd_zero)
  qed
  have c: "(\<forall>x \<in> set (dailyPnl st). snd x = Fin 0)
           \<and> (\<forall>p \<in> set (points cs). strategy p = initialCapital env)" if "simTrades st = []"
  proof -
    have z: "\<forall>x \<in> set (dailyPnl st). snd x = Fin 0"
      using that unfolding st_def by (rule simulate_zero)
    then show ?thesis unfolding cs_def using flat_curve[OF z] by blast
  qed
  show ?thesis
    using run tb a dates dist srt nonempty b c unfolding pd[symmetric] tr[symmetric]
    by (intro exI[of _ res] exI[of _ tb]) blast
qed

theorem timeline_dates_on_curve_witness:
  "selectedStrategyIds (exampleEnv (Fin 100000) (Fin (1 / 2)) (9 / 10) [''XYZ'']) \<noteq> []
   \<and> data (dataResult (exampleEnv (Fin 100000) (Fin (1 / 2)) (9 / 10) [''XYZ'']))
       = Some [(''SPY'', flatBars), (''XYZ'', flatBars)]
   \<and> success (dataResult (exampleEnv (Fin 100000) (Fin (1 / 2)) (9 / 10) [''XYZ'']))
   \<and> exampleStrategy [''XYZ'']
       \<in> set (selectedStrategies (exampleEnv (Fin 100000) (Fin (1 / 2)) (9 / 10) [''XYZ'']))
   \<and> availableSymbols [(''SPY'', flatBars), (''XYZ'', flatBars)] (exampleStrategy [''XYZ''])
       = [''XYZ'']
   \<and> curveOf (handleRunBacktest (exampleEnv (Fin 100000) (Fin (1 / 2)) (9 / 10) [''XYZ''])) \<noteq> []
   \<and> distinct (map date
        (curveOf (handleRunBacktest (exampleEnv (Fin 100000) (Fin (1 / 2)) (9 / 10) [''XYZ'']))))"
proof -
  let ?env = "exampleEnv (Fin 100000) (Fin (1 / 2)) (9 / 10) [''XYZ'']"
  let ?dat = "[(''SPY'', flatBars), (''XYZ'', flatBars)]"
  have h1: "selectedStrategyIds ?env \<noteq> []"
    and h2: "data (dataResult ?env) = Some ?dat"
    and h3: "success (dataResult ?env)"
    and h4: "exampleStrategy [''XYZ''] \<in> set (selectedStrategies ?env)"
    and h5: "availableSymbols ?dat (exampleStrategy [''XYZ'']) = [''XYZ'']"
    by (simp_all add: exampleEnv_def exampleStrategy_def dataResult_def symbolsToFetch_def
          allSymbols_def selectedStrategies_def newSet_def availableSymbols_def strategySymbols_def
          flatBars_def)
  show ?thesis
    using timeline_dates_on_curve [OF h1 h2 h3 h4 h5] h1 h2 h3 h4 h5
    by (auto simp: curveOf_def)
qed

end
